theory Spec2Isabelle
  imports Main "HOL-Library.List_Lexorder" "HOL-Library.Sublist" "HOL-Library.Multiset"
begin

section \<open>Python strings\<close>

text \<open>
  A Python \<^verbatim>\<open>str\<close> is a sequence of Unicode code points and is modelled as
  a list of integers, one for each code point. Strings are compared as
  Python compares them, lexicographically by code point (the order of
  \<^theory_text>\<open>List_Lexorder\<close>). \<open>u\<close> writes a string literal of ASCII characters
  as a \<open>str\<close>, and \<open>cp\<close> a single character as its code point.
\<close>

type_synonym str = "int list"

definition cp :: "char \<Rightarrow> int" where
  [simp]: "cp c = of_char c"

definition u :: "string \<Rightarrow> str" where
  [simp]: "u s = map of_char s"

text \<open>
  The whitespace of \<^verbatim>\<open>str.isspace\<close>, which \<^verbatim>\<open>str.split()\<close> and
  \<^verbatim>\<open>str.strip()\<close> use: TAB, LF, VT, FF, CR, the separators FS, GS, RS and US,
  the space, NEL (U+0085), the no-break space (U+00A0), U+1680, U+2000 to U+200A,
  U+2028, U+2029, U+202F, U+205F and U+3000.
\<close>

definition is_space :: "int \<Rightarrow> bool" where
  "is_space c = (c \<in> set [0x09, 0x0A, 0x0B, 0x0C, 0x0D, 0x1C, 0x1D, 0x1E, 0x1F, 0x20,
                            0x85, 0xA0, 0x1680,
                            0x2000, 0x2001, 0x2002, 0x2003, 0x2004, 0x2005, 0x2006, 0x2007,
                            0x2008, 0x2009, 0x200A,
                            0x2028, 0x2029, 0x202F, 0x205F, 0x3000])"

text \<open>\<^verbatim>\<open>s.strip()\<close>: leading and trailing whitespace removed.\<close>

definition strip :: "str \<Rightarrow> str" where
  "strip s = rev (dropWhile is_space (rev (dropWhile is_space s)))"

text \<open>
  \<^verbatim>\<open>s.lower()\<close>. On a string whose code points are all below 256 (ASCII and
  Latin-1) lower-casing works character by character: the letters A to Z and the
  letters U+00C0 to U+00DE other than the multiplication sign U+00D7 move up by
  32, every other character stays. On any other string the result is given by
  the Unicode tables of the Python runtime, which are not part of the sources:
  the parameter \<open>unicode_lower\<close>.
\<close>

definition is_upper_latin1 :: "int \<Rightarrow> bool" where
  "is_upper_latin1 c = ((65 \<le> c \<and> c \<le> 90) \<or> (192 \<le> c \<and> c \<le> 222 \<and> c \<noteq> 215))"

definition lower_char :: "int \<Rightarrow> int" where
  "lower_char c = (if is_upper_latin1 c then c + 32 else c)"

definition lower :: "(str \<Rightarrow> str) \<Rightarrow> str \<Rightarrow> str" where
  "lower unicode_lower s =
     (if list_all (\<lambda>c. c < 256) s then map lower_char s else unicode_lower s)"

text \<open>
  \<^verbatim>\<open>s.split()\<close> with no argument: the maximal runs of non-whitespace
  characters, in order; never an empty word. The second argument is the word
  being read.
\<close>

fun split_aux :: "str \<Rightarrow> str \<Rightarrow> str list" where
  "split_aux [] w = (if w = [] then [] else [w])"
| "split_aux (c # cs) w =
     (if is_space c then (if w = [] then split_aux cs [] else w # split_aux cs [])
      else split_aux cs (w @ [c]))"

definition py_split :: "str \<Rightarrow> str list" where
  "py_split s = split_aux s []"

text \<open>\<^verbatim>\<open>" ".join(ws)\<close>.\<close>

fun join :: "str list \<Rightarrow> str" where
  "join [] = []"
| "join [w] = w"
| "join (w # v # ws) = w @ u '' '' @ join (v # ws)"

text \<open>
  \<^verbatim>\<open>s.split(" or ")[0]\<close>: the text before the leftmost occurrence of the
  delimiter, the whole string when the delimiter does not occur.
\<close>

fun select_first_option :: "str \<Rightarrow> str" where
  "select_first_option [] = []"
| "select_first_option (c # cs) =
     (if prefix (u '' or '') (c # cs) then [] else c # select_first_option cs)"

text \<open>Whether the delimiter \<^verbatim>\<open>" or "\<close> occurs in a string.\<close>

fun has_or :: "str \<Rightarrow> bool" where
  "has_or [] = False"
| "has_or (c # cs) = (prefix (u '' or '') (c # cs) \<or> has_or cs)"

section \<open>Regular-expression substitutions of the two notebooks\<close>

text \<open>
  \<open>close_paren s\<close> is what follows the first \<^verbatim>\<open>)\<close> of \<open>s\<close>, if there is one:
  where the greedy class \<^verbatim>\<open>[^)]*\<close> followed by \<^verbatim>\<open>\)\<close> stops.
\<close>

fun close_paren :: "str \<Rightarrow> str option" where
  "close_paren [] = None"
| "close_paren (c # cs) = (if c = cp CHR '')'' then Some cs else close_paren cs)"

lemma close_paren_length: "close_paren s = Some r \<Longrightarrow> length r < length s"
  by (induction s) (auto split: if_splits)

text \<open>
  The main notebook, inside \<^verbatim>\<open>preprocess_ingredient\<close>:
  \<^verbatim>\<open>no_parenthesis = re.sub(r"\([^)]*\)", "", ingredient)\<close>.
  Scanning from the left, an opening parenthesis that has a closing one after it
  starts a match that runs to the first closing parenthesis; the match is
  deleted and the scan resumes behind it. Any other character is copied.
\<close>

function no_parenthesis :: "str \<Rightarrow> str" where
  "no_parenthesis [] = []"
| "no_parenthesis (c # cs) =
     (if c = cp CHR ''(''
      then (case close_paren cs of
              Some rest \<Rightarrow> no_parenthesis rest
            | None \<Rightarrow> c # no_parenthesis cs)
      else c # no_parenthesis cs)"
  by pat_completeness auto
termination
  by (relation "measure length") (auto dest: close_paren_length)

text \<open>
  The association notebook:
  \<^verbatim>\<open>def remove_parentheses(ingredient): return re.sub(r" ?\([^)]+\)", "", ingredient)\<close>.
  \<open>paren_group s\<close> matches \<^verbatim>\<open>\([^)]+\)\<close> at the start of \<open>s\<close> and returns what
  follows the match: an opening parenthesis, at least one character that is not
  a closing parenthesis, then everything up to the first closing parenthesis.
  The optional space is tried first (the quantifier is greedy); when the group
  does not follow the space, the pattern is tried without it.
\<close>

fun paren_group :: "str \<Rightarrow> str option" where
  "paren_group (c # d # cs) =
     (if c = cp CHR ''('' \<and> d \<noteq> cp CHR '')'' then close_paren cs else None)"
| "paren_group _ = None"

lemma paren_group_length: "paren_group s = Some r \<Longrightarrow> length r < length s"
  by (cases s rule: paren_group.cases) (auto split: if_splits dest: close_paren_length)

function remove_parentheses :: "str \<Rightarrow> str" where
  "remove_parentheses [] = []"
| "remove_parentheses (c # cs) =
     (case (if c = cp CHR '' '' then paren_group cs else None) of
        Some rest \<Rightarrow> remove_parentheses rest
      | None \<Rightarrow>
          (case paren_group (c # cs) of
             Some rest \<Rightarrow> remove_parentheses rest
           | None \<Rightarrow> c # remove_parentheses cs))"
  by pat_completeness auto
termination
  by (relation "measure length") (auto split: if_splits dest!: paren_group_length)

text \<open>
  The association notebook's cleaner:
  \<^verbatim>\<open>
  def clean_ingredient(ingredient):
      ingredient = remove_parentheses(ingredient)
      ingredient = select_first_option(ingredient)
      return ingredient.lower().strip()
  \<close>
\<close>

definition clean_ingredient :: "(str \<Rightarrow> str) \<Rightarrow> str \<Rightarrow> str" where
  "clean_ingredient unicode_lower ingredient =
     (let ingredient1 = remove_parentheses ingredient;
          ingredient2 = select_first_option ingredient1
      in strip (lower unicode_lower ingredient2))"

text \<open>
  The first three lines of the main notebook's \<^verbatim>\<open>preprocess_ingredient\<close>:
  \<^verbatim>\<open>
  no_parenthesis = re.sub(r"\([^)]*\)", "", ingredient)
  first_option = no_parenthesis.split(" or ")[0]
  formatted = first_option.lower().strip()
  \<close>
\<close>

definition formatted :: "(str \<Rightarrow> str) \<Rightarrow> str \<Rightarrow> str" where
  "formatted unicode_lower ingredient =
     (let first_option = select_first_option (no_parenthesis ingredient)
      in strip (lower unicode_lower first_option))"

section \<open>The external tagger and the dictionaries\<close>

text \<open>
  What the notebooks read of a spaCy token: \<^verbatim>\<open>token.text\<close>, \<^verbatim>\<open>token.lemma_\<close>,
  \<^verbatim>\<open>token.pos_\<close>, \<^verbatim>\<open>token.is_alpha\<close> and \<^verbatim>\<open>token.is_stop\<close>. The tagger
  \<^verbatim>\<open>nlp\<close> is an external model: a parameter, any function from a string to its
  tokens. The fields are named \<open>tok_text\<close>, \<open>tok_lemma\<close> and \<open>tok_pos\<close> here.
\<close>

record token =
  tok_text :: str
  tok_lemma :: str
  tok_pos :: str
  is_alpha :: bool
  is_stop :: bool

type_synonym tagger = "str \<Rightarrow> token list"

text \<open>
  A value of the JSON dictionaries that map an ingredient to a name or to a list
  of names.
\<close>

datatype jvalue = JStr str | JList "str list"

text \<open>
  The globals of the main notebook that the preprocessing reads: the tagger, the
  lines of \<^verbatim>\<open>data/culinary_stopwords.txt\<close>, and the dictionaries loaded from
  \<^verbatim>\<open>data/word_synonyms.json\<close> and \<^verbatim>\<open>data/phrase_synonyms.json\<close>. The data
  files are not part of the sources, so they are parameters, and so are the
  Unicode tables behind \<^verbatim>\<open>str.lower\<close>.
\<close>

record globals =
  unicode_lower :: "str \<Rightarrow> str"
  nlp :: tagger
  stopwords :: "str list"
  word_synonyms :: "str \<rightharpoonup> str"
  phrase_synonyms :: "str \<rightharpoonup> jvalue"

section \<open>The stages of the main notebook\<close>

text \<open>
  \<^verbatim>\<open>
  def lemmatize_valid_nouns(ingredient):
      doc = nlp(ingredient)
      valid_lemmas = []
      for token in doc:
          outliers = ["cauliflower", "baking"]
          if token.text in outliers:
              token.pos_ = "NOUN"  # Override POS tag for some words
          if (token.is_alpha and not token.is_stop
                  and token.pos_ in ["NOUN", "PROPN"]):
              valid_lemmas.append(token.lemma_)
      return " ".join(valid_lemmas)
  \<close>
  The loop is a recursion over the tokens that carries \<^verbatim>\<open>valid_lemmas\<close>.
\<close>

definition outliers :: "str list" where
  "outliers = [u ''cauliflower'', u ''baking'']"

fun lemmatize_loop :: "token list \<Rightarrow> str list \<Rightarrow> str list" where
  "lemmatize_loop [] valid_lemmas = valid_lemmas"
| "lemmatize_loop (token # doc) valid_lemmas =
     (let token1 = (if tok_text token \<in> set outliers then token\<lparr>tok_pos := u ''NOUN''\<rparr> else token)
      in if is_alpha token1 \<and> \<not> is_stop token1 \<and> tok_pos token1 \<in> set [u ''NOUN'', u ''PROPN'']
         then lemmatize_loop doc (valid_lemmas @ [tok_lemma token1])
         else lemmatize_loop doc valid_lemmas)"

definition lemmatize_valid_nouns :: "tagger \<Rightarrow> str \<Rightarrow> str" where
  "lemmatize_valid_nouns tagger ingredient = join (lemmatize_loop (tagger ingredient) [])"

text \<open>
  \<^verbatim>\<open>
  def filter_stopwords(text):
      meaningful_terms = []
      for term in text.split():
          if term not in stopwords:
              meaningful_terms.append(term)
      return " ".join(meaningful_terms)
  \<close>
\<close>

definition filter_stopwords :: "str list \<Rightarrow> str \<Rightarrow> str" where
  "filter_stopwords stops text =
     join (fold (\<lambda>term meaningful_terms.
                   if term \<notin> set stops then meaningful_terms @ [term] else meaningful_terms)
             (py_split text) [])"

text \<open>
  \<^verbatim>\<open>
  def handle_word_synonym(ingredient):
      common_words = []
      for word in ingredient.split():
          common_words.append(word_synonyms.get(word, word))
      return " ".join(common_words)
  \<close>
\<close>

definition dict_get :: "('k \<rightharpoonup> 'v) \<Rightarrow> 'k \<Rightarrow> 'v \<Rightarrow> 'v" where
  "dict_get d k dflt = (case d k of None \<Rightarrow> dflt | Some v \<Rightarrow> v)"

definition handle_word_synonym :: "(str \<rightharpoonup> str) \<Rightarrow> str \<Rightarrow> str" where
  "handle_word_synonym synonyms ingredient =
     join (fold (\<lambda>word common_words. common_words @ [dict_get synonyms word word])
             (py_split ingredient) [])"

text \<open>
  \<^verbatim>\<open>
  def remove_duplicates(text):
      seen = set()
      unique = []
      for ingredient in text.split():
          if ingredient not in seen:
              unique.append(ingredient)
              seen.add(ingredient)
      return " ".join(unique)
  \<close>
  The loop state is the pair of \<^verbatim>\<open>seen\<close> and \<^verbatim>\<open>unique\<close>.
\<close>

fun dedup_loop :: "str list \<Rightarrow> str set \<Rightarrow> str list \<Rightarrow> str list" where
  "dedup_loop [] seen unique = unique"
| "dedup_loop (ingredient # rest) seen unique =
     (if ingredient \<notin> seen
      then dedup_loop rest (insert ingredient seen) (unique @ [ingredient])
      else dedup_loop rest seen unique)"

definition remove_duplicates :: "str \<Rightarrow> str" where
  "remove_duplicates text = join (dedup_loop (py_split text) {} [])"

text \<open>
  \<^verbatim>\<open>
  def handle_phrase_synonym(ingredient):
      return phrase_synonyms.get(ingredient, ingredient)
  \<close>
  The value found may be a list: \<^verbatim>\<open>clean_ingredients\<close> tests for it.
\<close>

definition handle_phrase_synonym :: "(str \<rightharpoonup> jvalue) \<Rightarrow> str \<Rightarrow> jvalue" where
  "handle_phrase_synonym synonyms ingredient = dict_get synonyms ingredient (JStr ingredient)"

text \<open>
  \<^verbatim>\<open>
  def preprocess_ingredient(ingredient):
      no_parenthesis = re.sub(r"\([^)]*\)", "", ingredient)
      first_option = no_parenthesis.split(" or ")[0]
      formatted = first_option.lower().strip()
      lemmatized = lemmatize_valid_nouns(formatted)
      filtered = filter_stopwords(lemmatized)
      word_synonym = handle_word_synonym(filtered)
      unique = remove_duplicates(word_synonym)
      phrase_synonym = handle_phrase_synonym(unique)
      return phrase_synonym
  \<close>
  \<open>unique_of\<close> is the value of the variable \<^verbatim>\<open>unique\<close>, the key of the phrase
  lookup.
\<close>

definition unique_of :: "globals \<Rightarrow> str \<Rightarrow> str" where
  "unique_of g ingredient =
     (let lemmatized = lemmatize_valid_nouns (nlp g) (formatted (unicode_lower g) ingredient);
          filtered = filter_stopwords (stopwords g) lemmatized;
          word_synonym = handle_word_synonym (word_synonyms g) filtered
      in remove_duplicates word_synonym)"

definition preprocess_ingredient :: "globals \<Rightarrow> str \<Rightarrow> jvalue" where
  "preprocess_ingredient g ingredient =
     handle_phrase_synonym (phrase_synonyms g) (unique_of g ingredient)"

text \<open>
  \<^verbatim>\<open>
  def clean_ingredients(ingredients):
      cleaned_ingredients = []
      for ingredient in ingredients:
          cleaned = preprocess_ingredient(ingredient)
          if isinstance(cleaned, list):
              cleaned_ingredients.extend(cleaned)
          else:
              cleaned_ingredients.append(cleaned)
      return list(sorted(set(filter(None, cleaned_ingredients))))
  \<close>
  \<open>flatten_loop\<close> is the loop, carrying \<^verbatim>\<open>cleaned_ingredients\<close>.
  \<^verbatim>\<open>filter(None, _)\<close> drops the empty strings; a Python set lists its elements
  in an order of its own, and \<^verbatim>\<open>sorted\<close> of it is the sorted list of the
  distinct elements.
\<close>

fun flatten_loop :: "globals \<Rightarrow> str list \<Rightarrow> str list \<Rightarrow> str list" where
  "flatten_loop g [] cleaned_ingredients = cleaned_ingredients"
| "flatten_loop g (ingredient # rest) cleaned_ingredients =
     (case preprocess_ingredient g ingredient of
        JList cleaned \<Rightarrow> flatten_loop g rest (cleaned_ingredients @ cleaned)
      | JStr cleaned \<Rightarrow> flatten_loop g rest (cleaned_ingredients @ [cleaned]))"

definition clean_ingredients :: "globals \<Rightarrow> str list \<Rightarrow> str list" where
  "clean_ingredients g ingredients =
     sort (remdups (filter (\<lambda>s. s \<noteq> []) (flatten_loop g ingredients [])))"

section \<open>The corpus-level filter of the main notebook\<close>

text \<open>
  A row of the data frame: the recipe's name, its raw ingredient lines and the
  column \<^verbatim>\<open>cleaned_ingredients\<close>. Rows without ingredients are dropped by
  \<^verbatim>\<open>dropna\<close> before the preprocessing runs.
\<close>

record recipe =
  name :: str
  ingredients :: "str list"
  cleaned_ingredients :: "str list"

text \<open>
  \<^verbatim>\<open>recipe_df["cleaned_ingredients"] = recipe_df["ingredients"].progress_apply(clean_ingredients)\<close>
\<close>

definition assign_cleaned :: "globals \<Rightarrow> recipe list \<Rightarrow> recipe list" where
  "assign_cleaned g recipe_df =
     map (\<lambda>r. r\<lparr>cleaned_ingredients := clean_ingredients g (ingredients r)\<rparr>) recipe_df"

text \<open>
  The denylist cell. The notebook names this function \<^verbatim>\<open>remove_rare_ingredients\<close>
  too; the later cell redefines the name, so the first one carries a suffix here.
  \<^verbatim>\<open>
  ingredients_to_remove = ["oil", "salt", "onion", "sugar", "pepper", "garlic"]
  def remove_rare_ingredients(ingredients):
      return [i for i in ingredients if i not in ingredients_to_remove]
  \<close>
\<close>

definition ingredients_to_remove :: "str list" where
  "ingredients_to_remove = [u ''oil'', u ''salt'', u ''onion'', u ''sugar'', u ''pepper'', u ''garlic'']"

definition remove_rare_ingredients_denylist :: "str list \<Rightarrow> str list \<Rightarrow> str list" where
  "remove_rare_ingredients_denylist to_remove ingreds =
     filter (\<lambda>i. i \<notin> set to_remove) ingreds"

text \<open>
  \<^verbatim>\<open>
  MIN_FREQUENCY = 5
  counts = recipe_df["cleaned_ingredients"].explode().value_counts()
  rare_ingredients = counts[counts <= MIN_FREQUENCY].index
  \<close>
  \<^verbatim>\<open>explode\<close> lays the lists of the column end to end (an empty list gives a
  missing value, which \<^verbatim>\<open>value_counts\<close> leaves out); \<^verbatim>\<open>value_counts\<close> pairs
  each distinct value with the number of its occurrences. Only membership in the
  resulting index is used later, so the order of the pairs is of no consequence.
\<close>

definition MIN_FREQUENCY :: nat where
  "MIN_FREQUENCY = 5"

definition explode :: "str list list \<Rightarrow> str list" where
  "explode column = concat column"

definition value_counts :: "str list \<Rightarrow> (str \<times> nat) list" where
  "value_counts xs = map (\<lambda>x. (x, count_list xs x)) (remdups xs)"

definition rare_ingredients :: "nat \<Rightarrow> str list list \<Rightarrow> str list" where
  "rare_ingredients min_frequency column =
     (let counts = value_counts (explode column)
      in map fst (filter (\<lambda>(i, c). c \<le> min_frequency) counts))"

text \<open>
  \<^verbatim>\<open>
  def remove_rare_ingredients(ingredients):
      return [ingredient for ingredient in ingredients
              if ingredient not in rare_ingredients]
  \<close>
\<close>

definition remove_rare_ingredients :: "str list \<Rightarrow> str list \<Rightarrow> str list" where
  "remove_rare_ingredients rare ingreds =
     filter (\<lambda>ingredient. ingredient \<notin> set rare) ingreds"

text \<open>
  The two cells in sequence. \<^verbatim>\<open>reduced_df\<close> is a copy of \<^verbatim>\<open>recipe_df\<close> with
  the denylist applied (\<open>apply_denylist\<close>); the counts are taken from
  \<^verbatim>\<open>recipe_df\<close>, the column before any removal, and then the rare ingredients
  are removed from \<^verbatim>\<open>reduced_df\<close>.
\<close>

definition apply_denylist :: "str list \<Rightarrow> recipe list \<Rightarrow> recipe list" where
  "apply_denylist to_remove recipe_df =
     map (\<lambda>r. r\<lparr>cleaned_ingredients :=
            remove_rare_ingredients_denylist to_remove (cleaned_ingredients r)\<rparr>) recipe_df"

definition reduce_ingredients :: "str list \<Rightarrow> nat \<Rightarrow> recipe list \<Rightarrow> recipe list" where
  "reduce_ingredients to_remove min_frequency recipe_df =
     (let reduced_df = apply_denylist to_remove recipe_df;
          rare = rare_ingredients min_frequency (map cleaned_ingredients recipe_df)
      in map (\<lambda>r. r\<lparr>cleaned_ingredients :=
                   remove_rare_ingredients rare (cleaned_ingredients r)\<rparr>) reduced_df)"

text \<open>
  \<^verbatim>\<open>
  MIN_INGREDIENT = 4
  MAX_INGREDIENT = 9
  counts = reduced_df["cleaned_ingredients"].apply(len)
  reduced_df = reduced_df[(counts >= MIN_INGREDIENT) & (counts <= MAX_INGREDIENT)]
  \<close>
\<close>

definition MIN_INGREDIENT :: nat where
  "MIN_INGREDIENT = 4"

definition MAX_INGREDIENT :: nat where
  "MAX_INGREDIENT = 9"

definition filter_recipe_size :: "nat \<Rightarrow> nat \<Rightarrow> recipe list \<Rightarrow> recipe list" where
  "filter_recipe_size min_ingredient max_ingredient reduced_df =
     filter (\<lambda>r. length (cleaned_ingredients r) \<ge> min_ingredient
                 \<and> length (cleaned_ingredients r) \<le> max_ingredient) reduced_df"

text \<open>The number of recipes of a column that contain an ingredient.\<close>

definition recipes_containing :: "str list list \<Rightarrow> str \<Rightarrow> nat" where
  "recipes_containing column i = length (filter (\<lambda>r. i \<in> set r) column)"

text \<open>The corpus count of an ingredient as the notebook takes it.\<close>

definition corpus_count :: "recipe list \<Rightarrow> str \<Rightarrow> nat" where
  "corpus_count recipe_df i = count_list (explode (map cleaned_ingredients recipe_df)) i"

section \<open>The association notebook: component expansion\<close>

text \<open>
  \<^verbatim>\<open>
  def break_down_ingredient(ingredient):
      components = ingredient_components.get(ingredient, ingredient)
      if isinstance(components, str):
          return [components]
      return components
  \<close>
  \<^verbatim>\<open>ingredient_components\<close> is loaded from \<^verbatim>\<open>data/components.json\<close>, a
  parameter here.
\<close>

definition break_down_ingredient :: "(str \<rightharpoonup> jvalue) \<Rightarrow> str \<Rightarrow> str list" where
  "break_down_ingredient ingredient_components ingredient =
     (let components = dict_get ingredient_components ingredient (JStr ingredient)
      in case components of JStr s \<Rightarrow> [s] | JList cs \<Rightarrow> cs)"

section \<open>The association notebook: the staged columns\<close>

text \<open>
  The globals the association notebook reads: the tagger, the lines of
  \<^verbatim>\<open>data/stopwords.txt\<close>, the one dictionary of \<^verbatim>\<open>data/thesaurus.json\<close> that
  serves both the word level and the phrase level, and the component map of
  \<^verbatim>\<open>data/components.json\<close>; and the Unicode tables behind \<^verbatim>\<open>str.lower\<close>.
\<close>

record assoc_globals =
  assoc_unicode_lower :: "str \<Rightarrow> str"
  assoc_nlp :: tagger
  assoc_stopwords :: "str list"
  thesaurus :: "str \<rightharpoonup> str"
  ingredient_components :: "str \<rightharpoonup> jvalue"

text \<open>
  \<^verbatim>\<open>
  def correct_noun_pos_tags(token):
      outliers = ["cauliflower", "baking"]
      if token.text in outliers:
          token.pos_ = "NOUN"
      return token

  def lemmatize_nouns(ingredient):
      doc = nlp(ingredient)
      lemmas = []
      for token in doc:
          token = correct_noun_pos_tags(token)
          if (token.is_alpha and not token.is_stop
                  and token.pos_ in ["NOUN", "PROPN"]):
              lemmas.append(token.lemma_)
      return " ".join(lemmas)
  \<close>
\<close>

definition correct_noun_pos_tags :: "token \<Rightarrow> token" where
  "correct_noun_pos_tags token =
     (if tok_text token \<in> set outliers then token\<lparr>tok_pos := u ''NOUN''\<rparr> else token)"

fun lemmatize_nouns_loop :: "token list \<Rightarrow> str list \<Rightarrow> str list" where
  "lemmatize_nouns_loop [] lemmas = lemmas"
| "lemmatize_nouns_loop (token # doc) lemmas =
     (let token1 = correct_noun_pos_tags token
      in if is_alpha token1 \<and> \<not> is_stop token1 \<and> tok_pos token1 \<in> set [u ''NOUN'', u ''PROPN'']
         then lemmatize_nouns_loop doc (lemmas @ [tok_lemma token1])
         else lemmatize_nouns_loop doc lemmas)"

definition lemmatize_nouns :: "tagger \<Rightarrow> str \<Rightarrow> str" where
  "lemmatize_nouns tagger ingredient = join (lemmatize_nouns_loop (tagger ingredient) [])"

text \<open>
  \<^verbatim>\<open>
  def standardize_at_word_level(ingredient):
      words = []
      for word in ingredient.split():
          words.append(thesaurus.get(word, word))
      return " ".join(words)

  def standardize_at_phrase_level(ingredient):
      return thesaurus.get(ingredient, ingredient)
  \<close>
  The notebook's \<^verbatim>\<open>filter_stopwords\<close> and \<^verbatim>\<open>remove_duplicates\<close> are those of
  the main notebook with other variable names; the definitions above serve both.
\<close>

definition standardize_at_word_level :: "(str \<rightharpoonup> str) \<Rightarrow> str \<Rightarrow> str" where
  "standardize_at_word_level th ingredient =
     join (fold (\<lambda>word words. words @ [dict_get th word word]) (py_split ingredient) [])"

definition standardize_at_phrase_level :: "(str \<rightharpoonup> str) \<Rightarrow> str \<Rightarrow> str" where
  "standardize_at_phrase_level th ingredient = dict_get th ingredient ingredient"

text \<open>
  Each column is computed from the previous one by a comprehension that keeps
  the nonempty results, for instance
  \<^verbatim>\<open>
  recipe_df["cleaned"] = recipe_df.ingredients.progress_apply(
      lambda x: [cleaned for i in x if (cleaned := clean_ingredient(i))])
  \<close>
  and so on for \<^verbatim>\<open>lemmatized\<close>, \<^verbatim>\<open>filtered\<close>, \<^verbatim>\<open>standardized_word\<close>,
  \<^verbatim>\<open>unique\<close> and \<^verbatim>\<open>standardized_phrase\<close>; the last column flattens:
  \<^verbatim>\<open>
  recipe_df["components"] = recipe_df.standardized_phrase.progress_apply(
      lambda x: [component for i in x for component in break_down_ingredient(i)])
  \<close>
\<close>

definition nonempty_results :: "(str \<Rightarrow> str) \<Rightarrow> str list \<Rightarrow> str list" where
  "nonempty_results f x = filter (\<lambda>result. result \<noteq> []) (map f x)"

definition components_column :: "assoc_globals \<Rightarrow> str list \<Rightarrow> str list" where
  "components_column e x =
     (let cleaned = nonempty_results (clean_ingredient (assoc_unicode_lower e)) x;
          lemmatized = nonempty_results (lemmatize_nouns (assoc_nlp e)) cleaned;
          filtered = nonempty_results (filter_stopwords (assoc_stopwords e)) lemmatized;
          standardized_word = nonempty_results (standardize_at_word_level (thesaurus e)) filtered;
          unique = nonempty_results remove_duplicates standardized_word;
          standardized_phrase = nonempty_results (standardize_at_phrase_level (thesaurus e)) unique
      in concat (map (break_down_ingredient (ingredient_components e)) standardized_phrase))"

section \<open>Predicates and specification-level definitions used by the theorems\<close>

text \<open>
  The strings a JSON value contributes to \<^verbatim>\<open>cleaned_ingredients\<close>: the list
  itself (\<^verbatim>\<open>extend\<close>), or the one string (\<^verbatim>\<open>append\<close>).
\<close>

definition jvalue_strings :: "jvalue \<Rightarrow> str list" where
  "jvalue_strings v = (case v of JList cleaned \<Rightarrow> cleaned | JStr cleaned \<Rightarrow> [cleaned])"

text \<open>
  The first occurrence of each element of a list, in the order of the list:
  what an order-preserving removal of duplicates keeps.
\<close>

fun first_occurrences :: "'a list \<Rightarrow> 'a list" where
  "first_occurrences [] = []"
| "first_occurrences (x # xs) = x # first_occurrences (filter (\<lambda>y. y \<noteq> x) xs)"

text \<open>A nonempty string of whitespace characters only.\<close>

definition whitespace_only :: "str \<Rightarrow> bool" where
  "whitespace_only s = (s \<noteq> [] \<and> list_all is_space s)"

text \<open>
  A whitespace-normalized string: it neither starts nor ends with whitespace,
  its only whitespace character is the space, and no two whitespace characters
  are adjacent. The empty string is normalized.
\<close>

fun single_spaced :: "str \<Rightarrow> bool" where
  "single_spaced (a # b # cs) = (\<not> (is_space a \<and> is_space b) \<and> single_spaced (b # cs))"
| "single_spaced _ = True"

definition ws_normalized :: "str \<Rightarrow> bool" where
  "ws_normalized s =
     ((s = [] \<or> (\<not> is_space (hd s) \<and> \<not> is_space (last s))) \<and>
      list_all (\<lambda>c. is_space c \<longrightarrow> c = cp CHR '' '') s \<and>
      single_spaced s)"

text \<open>
  The linguistic filter in the words of the specification: tokenize, force the
  tag of every token whose surface text is an override key to NOUN, keep the
  lemma of a token if and only if the token is alphabetic, is not a generic
  stopword and is tagged NOUN or PROPN, and join the kept lemmas with single
  spaces in the tagger's order.
\<close>

definition linguistic_filter_spec :: "tagger \<Rightarrow> str \<Rightarrow> str" where
  "linguistic_filter_spec tagger s =
     join (map tok_lemma
       (filter (\<lambda>t. is_alpha t \<and> \<not> is_stop t \<and> (tok_pos t = u ''NOUN'' \<or> tok_pos t = u ''PROPN''))
         (map (\<lambda>t. if tok_text t \<in> set outliers then t\<lparr>tok_pos := u ''NOUN''\<rparr> else t)
           (tagger s))))"

text \<open>
  The ingredient pipeline in the words of the specification: the stages are
  composed for one raw ingredient string, an empty intermediate result is
  dropped and contributes nothing, and the phrase that comes out of the last
  string stage is expanded by the component map.
\<close>

definition then_stage :: "(str \<Rightarrow> str) \<Rightarrow> str option \<Rightarrow> str option" where
  "then_stage f v = (case v of None \<Rightarrow> None | Some s \<Rightarrow> (if f s = [] then None else Some (f s)))"

definition ingredient_pipeline_spec :: "assoc_globals \<Rightarrow> str \<Rightarrow> str list" where
  "ingredient_pipeline_spec e i =
     (case then_stage (standardize_at_phrase_level (thesaurus e))
            (then_stage remove_duplicates
              (then_stage (standardize_at_word_level (thesaurus e))
                (then_stage (filter_stopwords (assoc_stopwords e))
                  (then_stage (lemmatize_nouns (assoc_nlp e))
                    (then_stage (clean_ingredient (assoc_unicode_lower e)) (Some i)))))) of
        None \<Rightarrow> []
      | Some phrase \<Rightarrow> break_down_ingredient (ingredient_components e) phrase)"

text \<open>
  The contract of a \<^verbatim>\<open>cleaned_ingredients\<close> list: sorted, duplicate-free, without
  the empty string, and without whitespace-only strings when the phrase
  dictionary has no whitespace-only value.
\<close>

definition cleaned_ok :: "globals \<Rightarrow> str list \<Rightarrow> bool" where
  "cleaned_ok g xs =
     (sorted xs \<and> distinct xs \<and> [] \<notin> set xs \<and>
      ((\<forall>v\<in>ran (phrase_synonyms g). \<forall>s\<in>set (jvalue_strings v). \<not> whitespace_only s) \<longrightarrow>
         (\<forall>s\<in>set xs. \<not> whitespace_only s)))"

section \<open>Concrete data for the examples\<close>

text \<open>
  In the examples lower-casing is applied only to text whose code points are
  all below 256, where it does not consult the Unicode tables; the parameter is
  the identity in them.
\<close>

definition example_unicode_lower :: "str \<Rightarrow> str" where
  "example_unicode_lower s = s"

text \<open>
  A small tagger for the examples: one token for each whitespace-separated word,
  tagged as a noun with itself as lemma, alphabetic when all its characters are
  letters, never a generic stopword.
\<close>

definition letter :: "int \<Rightarrow> bool" where
  "letter c = ((cp CHR ''a'' \<le> c \<and> c \<le> cp CHR ''z'') \<or> (cp CHR ''A'' \<le> c \<and> c \<le> cp CHR ''Z''))"

definition word_tagger :: tagger where
  "word_tagger s =
     map (\<lambda>w. \<lparr>tok_text = w, tok_lemma = w, tok_pos = u ''NOUN'',
               is_alpha = list_all letter w, is_stop = False\<rparr>) (py_split s)"

definition example_globals :: globals where
  "example_globals =
     \<lparr>unicode_lower = example_unicode_lower, nlp = word_tagger, stopwords = [u ''small'', u ''cup''],
      word_synonyms = [u ''lemons'' \<mapsto> u ''lemon''],
      phrase_synonyms = [u ''toyo'' \<mapsto> JList [u ''soy'', u ''salt'']]\<rparr>"

definition example_recipes :: "recipe list" where
  "example_recipes =
     [\<lparr>name = u ''adobo'',
       ingredients = [u ''2 cup Toyo (dark)'', u ''small lemon lemons or 6 calamansi''],
       cleaned_ingredients = []\<rparr>,
      \<lparr>name = u ''juice'', ingredients = [u ''Lemon'', u ''1 cup sugar''], cleaned_ingredients = []\<rparr>]"

definition row :: "str \<Rightarrow> str list \<Rightarrow> recipe" where
  "row n cleaned = \<lparr>name = n, ingredients = [], cleaned_ingredients = cleaned\<rparr>"

definition example_counts_df :: "recipe list" where
  "example_counts_df =
     [row (u ''r1'') [u ''a'', u ''b'', u ''salt''], row (u ''r2'') [u ''a'', u ''b'', u ''salt''],
      row (u ''r3'') [u ''a'', u ''b'', u ''salt''], row (u ''r4'') [u ''a'', u ''b'', u ''salt''],
      row (u ''r5'') [u ''a'', u ''b'', u ''salt''], row (u ''r6'') [u ''a'', u ''salt'']]"

definition example_sizes_df :: "recipe list" where
  "example_sizes_df =
     [row (u ''three'') [u ''a'', u ''b'', u ''c''],
      row (u ''four'') [u ''a'', u ''b'', u ''c'', u ''d''],
      row (u ''nine'') [u ''a'', u ''b'', u ''c'', u ''d'', u ''e'', u ''f'', u ''g'', u ''h'', u ''i''],
      row (u ''ten'') [u ''a'', u ''b'', u ''c'', u ''d'', u ''e'', u ''f'', u ''g'', u ''h'', u ''i'', u ''j'']]"

text \<open>
  A fixed token sequence, as a tagger that misreads \<^verbatim>\<open>cauliflower\<close> as an
  adjective would emit it for \<^verbatim>\<open>2 cups of cauliflower rice Manila fresh\<close>.
\<close>

definition example_tagger :: tagger where
  "example_tagger s =
     [\<lparr>tok_text = u ''2'', tok_lemma = u ''2'', tok_pos = u ''NUM'', is_alpha = False, is_stop = False\<rparr>,
      \<lparr>tok_text = u ''cups'', tok_lemma = u ''cup'', tok_pos = u ''NOUN'', is_alpha = True, is_stop = False\<rparr>,
      \<lparr>tok_text = u ''of'', tok_lemma = u ''of'', tok_pos = u ''ADP'', is_alpha = True, is_stop = True\<rparr>,
      \<lparr>tok_text = u ''cauliflower'', tok_lemma = u ''cauliflower'', tok_pos = u ''ADJ'',
        is_alpha = True, is_stop = False\<rparr>,
      \<lparr>tok_text = u ''rice'', tok_lemma = u ''rice'', tok_pos = u ''NOUN'', is_alpha = True, is_stop = False\<rparr>,
      \<lparr>tok_text = u ''Manila'', tok_lemma = u ''Manila'', tok_pos = u ''PROPN'',
        is_alpha = True, is_stop = False\<rparr>,
      \<lparr>tok_text = u ''fresh'', tok_lemma = u ''fresh'', tok_pos = u ''ADJ'', is_alpha = True, is_stop = False\<rparr>]"

text \<open>Dictionaries for the examples of the aggregator and of the component expansion.\<close>

definition blank_globals :: globals where
  "blank_globals =
     \<lparr>unicode_lower = example_unicode_lower, nlp = word_tagger, stopwords = [], word_synonyms = Map.empty,
      phrase_synonyms = [u ''lemon'' \<mapsto> JStr (u '' '')]\<rparr>"

definition sauce_globals :: globals where
  "sauce_globals =
     \<lparr>unicode_lower = example_unicode_lower, nlp = word_tagger, stopwords = [u ''sauce''], word_synonyms = Map.empty,
      phrase_synonyms = [u ''patis'' \<mapsto> JStr (u ''fish sauce'')]\<rparr>"

definition nested_globals :: globals where
  "nested_globals =
     \<lparr>unicode_lower = example_unicode_lower, nlp = word_tagger, stopwords = [], word_synonyms = Map.empty,
      phrase_synonyms = [u ''toyo'' \<mapsto> JList [u ''soy'', u ''salt''], u ''soy'' \<mapsto> JStr (u ''bean'')]\<rparr>"

definition nested_components :: "str \<rightharpoonup> jvalue" where
  "nested_components =
     [u ''adobo sauce'' \<mapsto> JList [u ''toyo'', u ''vinegar''], u ''toyo'' \<mapsto> JList [u ''soy'', u ''salt''],
      u ''sili'' \<mapsto> JStr (u ''chili'')]"

definition example_assoc_globals :: assoc_globals where
  "example_assoc_globals =
     \<lparr>assoc_unicode_lower = example_unicode_lower, assoc_nlp = word_tagger, assoc_stopwords = [u ''cup''],
      thesaurus = [u ''toyo'' \<mapsto> u ''soy sauce''],
      ingredient_components =
        [u ''soy sauce'' \<mapsto> JList [u ''soybean'', u ''salt''], u ''soybean'' \<mapsto> JStr (u ''bean'')]\<rparr>"

section \<open>The recipe aggregator: order, duplicates, empty strings\<close>

lemma distinct_clean_ingredients: "distinct (clean_ingredients g raw)"
  by (simp add: clean_ingredients_def)

lemma sorted_clean_ingredients: "sorted (clean_ingredients g raw)"
  by (simp add: clean_ingredients_def)

lemma no_empty_clean_ingredients: "[] \<notin> set (clean_ingredients g raw)"
  by (simp add: clean_ingredients_def)

section \<open>The frequency table\<close>

lemma count_list_distinct:
  "distinct xs \<Longrightarrow> count_list xs x = (if x \<in> set xs then 1 else 0)"
  by (induction xs) auto

lemma count_explode_distinct:
  "(\<forall>r\<in>set column. distinct r) \<Longrightarrow>
     count_list (explode column) i = recipes_containing column i"
  unfolding explode_def recipes_containing_def
  by (induction column) (auto simp: count_list_distinct)

lemma set_value_counts:
  "(i, c) \<in> set (value_counts xs) \<longleftrightarrow> i \<in> set xs \<and> c = count_list xs i"
  by (auto simp: value_counts_def)

lemma map_of_value_counts:
  "map_of (value_counts xs) i = (if i \<in> set xs then Some (count_list xs i) else None)"
  unfolding value_counts_def
  by (induction xs) (auto simp: map_of_map_restrict restrict_map_def)

lemma distinct_keys_value_counts: "distinct (map fst (value_counts xs))"
  by (simp add: value_counts_def comp_def)

lemma set_rare_ingredients:
  "i \<in> set (rare_ingredients mf column) \<longleftrightarrow>
     i \<in> set (explode column) \<and> count_list (explode column) i \<le> mf"
  by (force simp: rare_ingredients_def set_value_counts)

text \<open>
  Claim C4. The frequency table built from the column that the aggregator
  assigned has one entry for each distinct ingredient of the corpus, and the
  entry is the number of recipes whose \<^verbatim>\<open>cleaned_ingredients\<close> contain the
  ingredient: every list of the column is duplicate-free, so the occurrences
  counted in the exploded column are one for each containing recipe.
\<close>

theorem frequency_table_counts_recipes:
  "(\<forall>r \<in> set (map cleaned_ingredients (assign_cleaned g recipe_df)). distinct r) \<and>
   distinct (map fst (value_counts (explode (map cleaned_ingredients (assign_cleaned g recipe_df))))) \<and>
   map_of (value_counts (explode (map cleaned_ingredients (assign_cleaned g recipe_df)))) i =
     (if \<exists>r \<in> set (assign_cleaned g recipe_df). i \<in> set (cleaned_ingredients r)
      then Some (recipes_containing (map cleaned_ingredients (assign_cleaned g recipe_df)) i)
      else None)"
proof -
  let ?col = "map cleaned_ingredients (assign_cleaned g recipe_df)"
  have d: "\<forall>r \<in> set ?col. distinct r"
    by (auto simp: assign_cleaned_def distinct_clean_ingredients)
  have m: "i \<in> set (explode ?col) \<longleftrightarrow>
      (\<exists>r \<in> set (assign_cleaned g recipe_df). i \<in> set (cleaned_ingredients r))"
    by (auto simp: explode_def)
  show ?thesis
    using d count_explode_distinct [OF d, of i] m
    by (simp add: map_of_value_counts distinct_keys_value_counts del: set_map)
qed

theorem frequency_table_counts_recipes_witness:
  "map_of (value_counts (explode (map cleaned_ingredients
      (assign_cleaned example_globals example_recipes)))) (u ''lemon'') = Some 2"
proof -
  have a: "(\<exists>r \<in> set (assign_cleaned example_globals example_recipes).
              (u ''lemon'') \<in> set (cleaned_ingredients r)) = True"
    by code_simp
  have b: "recipes_containing (map cleaned_ingredients
      (assign_cleaned example_globals example_recipes)) (u ''lemon'') = 2"
    by code_simp
  show ?thesis
    using frequency_table_counts_recipes [THEN conjunct2, THEN conjunct2,
        of example_globals example_recipes "u ''lemon''"]
    by (simp only: a b if_True)
qed

section \<open>Removal of denylisted and rare ingredients\<close>

text \<open>
  Claim C3. After the denylist cell and the rare-ingredient cell, each recipe
  keeps exactly those of its ingredients whose count in the column before any
  removal exceeds \<^verbatim>\<open>min_frequency\<close> and that are not on the denylist: an
  ingredient is removed if and only if its count is at most \<^verbatim>\<open>min_frequency\<close>
  or it is on the denylist. Hence every remaining ingredient has a count above
  the threshold and is off the denylist.
\<close>

theorem frequency_filter:
  "reduce_ingredients to_remove min_frequency recipe_df =
     map (\<lambda>r. r\<lparr>cleaned_ingredients :=
                 filter (\<lambda>i. \<not> (corpus_count recipe_df i \<le> min_frequency \<or> i \<in> set to_remove))
                   (cleaned_ingredients r)\<rparr>) recipe_df \<and>
   (\<forall>r \<in> set (reduce_ingredients to_remove min_frequency recipe_df).
      \<forall>i \<in> set (cleaned_ingredients r).
        min_frequency < corpus_count recipe_df i \<and> i \<notin> set to_remove)"
proof -
  let ?col = "map cleaned_ingredients recipe_df"
  have rare: "i \<notin> set (rare_ingredients min_frequency ?col) \<longleftrightarrow>
      \<not> corpus_count recipe_df i \<le> min_frequency"
    if "r \<in> set recipe_df" "i \<in> set (cleaned_ingredients r)" for r i
  proof -
    from that have "i \<in> set (explode ?col)"
      by (auto simp: explode_def)
    then show ?thesis
      by (simp add: set_rare_ingredients corpus_count_def)
  qed
  have "filter (\<lambda>i. i \<notin> set (rare_ingredients min_frequency ?col))
          (filter (\<lambda>i. i \<notin> set to_remove) (cleaned_ingredients r)) =
        filter (\<lambda>i. \<not> (corpus_count recipe_df i \<le> min_frequency \<or> i \<in> set to_remove))
          (cleaned_ingredients r)"
    if "r \<in> set recipe_df" for r
    using rare [OF that] by (auto simp: filter_filter intro!: filter_cong)
  then have eq: "reduce_ingredients to_remove min_frequency recipe_df =
     map (\<lambda>r. r\<lparr>cleaned_ingredients :=
                 filter (\<lambda>i. \<not> (corpus_count recipe_df i \<le> min_frequency \<or> i \<in> set to_remove))
                   (cleaned_ingredients r)\<rparr>) recipe_df"
    by (simp add: reduce_ingredients_def apply_denylist_def remove_rare_ingredients_def
        remove_rare_ingredients_denylist_def Let_def)
  show ?thesis
    by (rule conjI [OF eq]) (auto simp: eq)
qed

theorem frequency_filter_witness:
  "corpus_count example_counts_df (u ''b'') = MIN_FREQUENCY \<and>
   corpus_count example_counts_df (u ''a'') = MIN_FREQUENCY + 1 \<and>
   map cleaned_ingredients (reduce_ingredients ingredients_to_remove MIN_FREQUENCY example_counts_df)
     = [[u ''a''], [u ''a''], [u ''a''], [u ''a''], [u ''a''], [u ''a'']]"
proof -
  have "map cleaned_ingredients
     (map (\<lambda>r. r\<lparr>cleaned_ingredients :=
                 filter (\<lambda>i. \<not> (corpus_count example_counts_df i \<le> MIN_FREQUENCY
                                  \<or> i \<in> set ingredients_to_remove))
                   (cleaned_ingredients r)\<rparr>) example_counts_df)
     = [[u ''a''], [u ''a''], [u ''a''], [u ''a''], [u ''a''], [u ''a'']]"
    by code_simp
  moreover have "corpus_count example_counts_df (u ''b'') = MIN_FREQUENCY"
    by code_simp
  moreover have "corpus_count example_counts_df (u ''a'') = MIN_FREQUENCY + 1"
    by code_simp
  ultimately show ?thesis
    by (simp only: frequency_filter [THEN conjunct1,
          of ingredients_to_remove MIN_FREQUENCY example_counts_df])
qed

section \<open>The recipe-size filter\<close>

lemma distinct_reduce_ingredients:
  "r \<in> set (reduce_ingredients to_remove min_frequency (assign_cleaned g recipe_df)) \<Longrightarrow>
     distinct (cleaned_ingredients r)"
  by (auto simp: reduce_ingredients_def apply_denylist_def assign_cleaned_def
      remove_rare_ingredients_def remove_rare_ingredients_denylist_def Let_def
      distinct_clean_ingredients)

text \<open>
  Claim C7. A recipe survives the size filter if and only if it was in the
  frame and the length of its \<^verbatim>\<open>cleaned_ingredients\<close> lies between the two
  bounds, both inclusive; every recipe outside the range is dropped. On the
  frame the earlier cells produce, the lists are duplicate-free, so the length
  is the number of distinct ingredients and every surviving recipe has a
  cardinality within the bounds.
\<close>

theorem size_bound:
  "(r \<in> set (filter_recipe_size min_ingredient max_ingredient reduced_df) \<longleftrightarrow>
     r \<in> set reduced_df \<and> min_ingredient \<le> length (cleaned_ingredients r)
       \<and> length (cleaned_ingredients r) \<le> max_ingredient) \<and>
   (r \<in> set (filter_recipe_size min_ingredient max_ingredient
        (reduce_ingredients to_remove min_frequency (assign_cleaned g recipe_df))) \<longrightarrow>
     min_ingredient \<le> card (set (cleaned_ingredients r))
       \<and> card (set (cleaned_ingredients r)) \<le> max_ingredient)"
proof -
  have iff: "r \<in> set (filter_recipe_size min_ingredient max_ingredient df) \<longleftrightarrow>
     r \<in> set df \<and> min_ingredient \<le> length (cleaned_ingredients r)
       \<and> length (cleaned_ingredients r) \<le> max_ingredient" for df
    by (auto simp: filter_recipe_size_def)
  show ?thesis
    using iff [of reduced_df]
      iff [of "reduce_ingredients to_remove min_frequency (assign_cleaned g recipe_df)"]
      distinct_reduce_ingredients [of r to_remove min_frequency g recipe_df]
    by (auto simp: distinct_card)
qed

theorem size_bound_witness:
  "row (u ''four'') [u ''a'', u ''b'', u ''c'', u ''d'']
     \<in> set (filter_recipe_size MIN_INGREDIENT MAX_INGREDIENT example_sizes_df) \<and>
   row (u ''three'') [u ''a'', u ''b'', u ''c'']
     \<notin> set (filter_recipe_size MIN_INGREDIENT MAX_INGREDIENT example_sizes_df) \<and>
   row (u ''ten'') [u ''a'', u ''b'', u ''c'', u ''d'', u ''e'', u ''f'', u ''g'', u ''h'', u ''i'', u ''j'']
     \<notin> set (filter_recipe_size MIN_INGREDIENT MAX_INGREDIENT example_sizes_df) \<and>
   1 \<le> card (set (cleaned_ingredients (hd (filter_recipe_size 1 9
        (reduce_ingredients ingredients_to_remove 1
          (assign_cleaned example_globals example_recipes))))))"
proof -
  let ?df = "filter_recipe_size 1 9 (reduce_ingredients ingredients_to_remove 1
        (assign_cleaned example_globals example_recipes))"
  have "length ?df = 2"
    by code_simp
  then have "?df \<noteq> []"
    by auto
  then have m: "hd ?df \<in> set ?df"
    by (rule hd_in_set)
  have a: "row (u ''four'') [u ''a'', u ''b'', u ''c'', u ''d'']
     \<in> set (filter_recipe_size MIN_INGREDIENT MAX_INGREDIENT example_sizes_df)"
    unfolding size_bound [THEN conjunct1]
    by (simp add: example_sizes_df_def row_def MIN_INGREDIENT_def MAX_INGREDIENT_def)
  have b: "row (u ''three'') [u ''a'', u ''b'', u ''c'']
     \<notin> set (filter_recipe_size MIN_INGREDIENT MAX_INGREDIENT example_sizes_df)"
    unfolding size_bound [THEN conjunct1]
    by (simp add: example_sizes_df_def row_def MIN_INGREDIENT_def MAX_INGREDIENT_def)
  have c: "row (u ''ten'') [u ''a'', u ''b'', u ''c'', u ''d'', u ''e'', u ''f'', u ''g'', u ''h'', u ''i'', u ''j'']
     \<notin> set (filter_recipe_size MIN_INGREDIENT MAX_INGREDIENT example_sizes_df)"
    unfolding size_bound [THEN conjunct1]
    by (simp add: example_sizes_df_def row_def MIN_INGREDIENT_def MAX_INGREDIENT_def)
  note d = size_bound [THEN conjunct2, THEN mp, OF m, THEN conjunct1]
  from a b c d show ?thesis
    by (intro conjI)
qed

section \<open>Whitespace normalization of the string stages\<close>

lemma single_spaced_append:
  "single_spaced (a @ b) \<longleftrightarrow>
     single_spaced a \<and> single_spaced b \<and> (a = [] \<or> b = [] \<or> \<not> (is_space (last a) \<and> is_space (hd b)))"
proof (induction a rule: single_spaced.induct)
  case (1 x y cs)
  then show ?case by auto
qed (simp, cases b, auto)

lemma single_spaced_no_space: "\<forall>c\<in>set w. \<not> is_space c \<Longrightarrow> single_spaced w"
  by (induction w rule: single_spaced.induct) auto

lemma is_space_space: "is_space (cp CHR '' '')"
  by (simp add: is_space_def)

lemma word_normalized:
  "w \<noteq> [] \<Longrightarrow> \<forall>c\<in>set w. \<not> is_space c \<Longrightarrow> ws_normalized w"
  by (auto simp: ws_normalized_def list_all_iff single_spaced_no_space)

lemma ws_normalized_join2:
  assumes "ws_normalized a" "a \<noteq> []" "ws_normalized b" "b \<noteq> []"
  shows "ws_normalized (a @ u '' '' @ b)"
proof -
  have "single_spaced (cp CHR '' '' # b)"
    using assms by (cases b) (auto simp: ws_normalized_def)
  then have "single_spaced (a @ cp CHR '' '' # b)"
    using assms by (simp add: single_spaced_append ws_normalized_def)
  then show ?thesis
    using assms by (auto simp: ws_normalized_def)
qed

lemma ws_normalized_join:
  "\<forall>w\<in>set ws. w \<noteq> [] \<and> ws_normalized w \<Longrightarrow>
     ws_normalized (join ws) \<and> (ws \<noteq> [] \<longrightarrow> join ws \<noteq> [])"
proof (induction ws rule: join.induct)
  case 1
  then show ?case by (simp add: ws_normalized_def)
next
  case (2 w)
  then show ?case by simp
next
  case (3 w v ws)
  then have "ws_normalized (join (v # ws))" "join (v # ws) \<noteq> []"
    by auto
  with 3 show ?case
    using ws_normalized_join2 [of w "join (v # ws)"] by simp
qed

lemma ws_normalized_not_blank: "ws_normalized s \<Longrightarrow> \<not> whitespace_only s"
  by (cases s) (auto simp: ws_normalized_def whitespace_only_def)

lemma split_aux_words:
  "\<forall>c\<in>set acc. \<not> is_space c \<Longrightarrow>
     \<forall>w\<in>set (split_aux s acc). w \<noteq> [] \<and> (\<forall>c\<in>set w. \<not> is_space c)"
proof (induction s arbitrary: acc)
  case Nil
  then show ?case by simp
next
  case (Cons a s)
  show ?case
  proof (cases "is_space a")
    case True
    with Cons.IH [of "[]"] Cons.prems show ?thesis by auto
  next
    case False
    with Cons.IH [of "acc @ [a]"] Cons.prems show ?thesis by auto
  qed
qed

lemma py_split_words:
  "w \<in> set (py_split s) \<Longrightarrow> w \<noteq> [] \<and> (\<forall>c\<in>set w. \<not> is_space c)"
  using split_aux_words [of "[]" s] by (simp add: py_split_def)

lemma py_split_normalized: "w \<in> set (py_split s) \<Longrightarrow> w \<noteq> [] \<and> ws_normalized w"
  using py_split_words [of w s] by (simp add: word_normalized)

lemma fold_append_if:
  "fold (\<lambda>x acc. if P x then acc @ [f x] else acc) xs acc0 = acc0 @ map f (filter P xs)"
  by (induction xs arbitrary: acc0) auto

lemma fold_append_map:
  "fold (\<lambda>x acc. acc @ [f x]) xs acc0 = acc0 @ map f xs"
  by (induction xs arbitrary: acc0) auto

lemma filter_stopwords_eq:
  "filter_stopwords stops text = join (filter (\<lambda>term. term \<notin> set stops) (py_split text))"
  using fold_append_if [of "\<lambda>term. term \<notin> set stops" "\<lambda>x. x" "py_split text" "[]"]
  by (simp add: filter_stopwords_def)

lemma handle_word_synonym_eq:
  "handle_word_synonym synonyms text = join (map (\<lambda>w. dict_get synonyms w w) (py_split text))"
  by (simp add: handle_word_synonym_def fold_append_map)

lemma dedup_loop_subset:
  "set (dedup_loop ws seen unique) \<subseteq> set unique \<union> set ws"
  by (induction ws seen unique rule: dedup_loop.induct) auto

lemma lemmatize_loop_eq:
  "lemmatize_loop doc acc = acc @ map tok_lemma
       (filter (\<lambda>t. is_alpha t \<and> \<not> is_stop t \<and> (tok_pos t = u ''NOUN'' \<or> tok_pos t = u ''PROPN''))
         (map (\<lambda>t. if tok_text t \<in> set outliers then t\<lparr>tok_pos := u ''NOUN''\<rparr> else t) doc))"
  by (induction doc arbitrary: acc) (auto simp: Let_def)

text \<open>
  Claim C8. For every tagger and every input string, \<^verbatim>\<open>lemmatize_valid_nouns\<close>
  computes the linguistic filter of the specification: the tag of each token
  whose text is an override key is forced to NOUN, a lemma is kept exactly when
  its token is alphabetic, not a generic stopword and tagged NOUN or PROPN, and
  the kept lemmas are joined with single spaces in emission order. The output
  is empty when no token is kept.
\<close>

theorem linguistic_filter_refines:
  "lemmatize_valid_nouns tagger s = linguistic_filter_spec tagger s"
  by (simp add: lemmatize_valid_nouns_def linguistic_filter_spec_def lemmatize_loop_eq)

lemma filter_stopwords_normalized: "ws_normalized (filter_stopwords stops text)"
  unfolding filter_stopwords_eq
  by (rule ws_normalized_join [THEN conjunct1]) (auto dest: py_split_normalized)

lemma remove_duplicates_normalized: "ws_normalized (remove_duplicates text)"
  unfolding remove_duplicates_def
  by (rule ws_normalized_join [THEN conjunct1])
    (use dedup_loop_subset [of "py_split text" "{}" "[]"] in \<open>auto dest: py_split_normalized\<close>)

theorem linguistic_filter_refines_witness:
  "lemmatize_valid_nouns example_tagger (u ''2 cups of cauliflower rice Manila fresh'')
     = u ''cup cauliflower rice Manila''"
proof -
  have "linguistic_filter_spec example_tagger (u ''2 cups of cauliflower rice Manila fresh'')
     = u ''cup cauliflower rice Manila''"
    by code_simp
  then show ?thesis
    by (simp only: linguistic_filter_refines)
qed

lemma set_dedup_loop:
  "set (dedup_loop ws seen unique) = set unique \<union> (set ws - seen)"
  by (induction ws seen unique rule: dedup_loop.induct) auto

lemma join_empty_iff: "\<forall>w\<in>set ws. w \<noteq> [] \<Longrightarrow> join ws = [] \<longleftrightarrow> ws = []"
  by (induction ws rule: join.induct) auto

lemma filter_stopwords_empty_iff:
  "filter_stopwords stops text = [] \<longleftrightarrow> (\<forall>w\<in>set (py_split text). w \<in> set stops)"
proof -
  have "\<forall>w\<in>set (filter (\<lambda>term. term \<notin> set stops) (py_split text)). w \<noteq> []"
    by (auto dest: py_split_words)
  then show ?thesis
    by (simp add: filter_stopwords_eq join_empty_iff filter_empty_conv)
qed

lemma remove_duplicates_empty_iff:
  "remove_duplicates text = [] \<longleftrightarrow> py_split text = []"
proof -
  have "\<forall>w\<in>set (dedup_loop (py_split text) {} []). w \<noteq> []"
    by (auto simp: set_dedup_loop dest: py_split_words)
  then have "remove_duplicates text = [] \<longleftrightarrow> dedup_loop (py_split text) {} [] = []"
    by (simp add: remove_duplicates_def join_empty_iff)
  also have "\<dots> \<longleftrightarrow> set (dedup_loop (py_split text) {} []) = {}"
    by simp
  also have "\<dots> \<longleftrightarrow> py_split text = []"
    by (simp add: set_dedup_loop)
  finally show ?thesis .
qed

lemma dedup_loop_first_occurrences:
  "dedup_loop ws seen unique = unique @ first_occurrences (filter (\<lambda>w. w \<notin> seen) ws)"
proof (induction ws seen unique rule: dedup_loop.induct)
  case (1 seen unique)
  then show ?case by simp
next
  case (2 ingredient rest seen unique)
  have "filter (\<lambda>y. y \<noteq> ingredient) (filter (\<lambda>w. w \<notin> seen) rest) =
      filter (\<lambda>w. w \<notin> insert ingredient seen) rest"
    by (auto simp: filter_filter intro!: filter_cong)
  with 2 show ?case by simp
qed

lemma remove_duplicates_eq:
  "remove_duplicates text = join (first_occurrences (py_split text))"
  by (simp add: remove_duplicates_def dedup_loop_first_occurrences)

lemma handle_word_synonym_normalized:
  assumes "\<forall>w\<in>set (py_split text).
     dict_get synonyms w w \<noteq> [] \<and> ws_normalized (dict_get synonyms w w)"
  shows "ws_normalized (handle_word_synonym synonyms text) \<and>
     (handle_word_synonym synonyms text = [] \<longleftrightarrow> py_split text = [])"
proof -
  let ?ws = "map (\<lambda>w. dict_get synonyms w w) (py_split text)"
  have ok: "\<forall>w\<in>set ?ws. w \<noteq> [] \<and> ws_normalized w"
    using assms by auto
  then have "\<forall>w\<in>set ?ws. w \<noteq> []"
    by blast
  then have "join ?ws = [] \<longleftrightarrow> ?ws = []"
    by (rule join_empty_iff)
  with ws_normalized_join [OF ok] show ?thesis
    by (simp add: handle_word_synonym_eq)
qed

lemma lemmatize_valid_nouns_normalized:
  assumes "\<forall>l\<in>set (lemmatize_loop (tagger text) []). l \<noteq> [] \<and> ws_normalized l"
  shows "ws_normalized (lemmatize_valid_nouns tagger text) \<and>
     (lemmatize_valid_nouns tagger text = [] \<longleftrightarrow> lemmatize_loop (tagger text) [] = [])"
proof -
  let ?ws = "lemmatize_loop (tagger text) []"
  from assms have "\<forall>w\<in>set ?ws. w \<noteq> []"
    by blast
  then have "join ?ws = [] \<longleftrightarrow> ?ws = []"
    by (rule join_empty_iff)
  with ws_normalized_join [OF assms] show ?thesis
    by (simp add: lemmatize_valid_nouns_def)
qed

text \<open>
  Claim C10, as amended. \<^verbatim>\<open>filter_stopwords\<close> and \<^verbatim>\<open>remove_duplicates\<close>
  always return a whitespace-normalized string, never a nonempty whitespace-only
  one: the retained words (the words off the stopword list, the first
  occurrence of each word) joined by single spaces, the empty string exactly
  when no word is retained. \<^verbatim>\<open>handle_word_synonym\<close> returns the replacements
  of all words joined by single spaces; it returns a normalized string, the
  empty string exactly when the input has no word, when every word of the input
  is replaced by a nonempty normalized string. \<^verbatim>\<open>lemmatize_valid_nouns\<close>
  returns a normalized string, the empty string exactly when no lemma is
  retained, when every retained lemma is a nonempty normalized string. These
  two stages copy the dictionary's values and the tagger's lemmas into the
  output as they are.
\<close>

theorem stages_whitespace_normalized:
  "ws_normalized (filter_stopwords stops text) \<and>
   \<not> whitespace_only (filter_stopwords stops text) \<and>
   filter_stopwords stops text = join (filter (\<lambda>w. w \<notin> set stops) (py_split text)) \<and>
   (filter_stopwords stops text = [] \<longleftrightarrow> (\<forall>w\<in>set (py_split text). w \<in> set stops)) \<and>
   ws_normalized (remove_duplicates text) \<and>
   \<not> whitespace_only (remove_duplicates text) \<and>
   remove_duplicates text = join (first_occurrences (py_split text)) \<and>
   (remove_duplicates text = [] \<longleftrightarrow> py_split text = []) \<and>
   handle_word_synonym synonyms text =
     join (map (\<lambda>w. dict_get synonyms w w) (py_split text)) \<and>
   ((\<forall>w\<in>set (py_split text).
        dict_get synonyms w w \<noteq> [] \<and> ws_normalized (dict_get synonyms w w)) \<longrightarrow>
      ws_normalized (handle_word_synonym synonyms text) \<and>
      \<not> whitespace_only (handle_word_synonym synonyms text) \<and>
      (handle_word_synonym synonyms text = [] \<longleftrightarrow> py_split text = [])) \<and>
   ((\<forall>l\<in>set (lemmatize_loop (tagger text) []). l \<noteq> [] \<and> ws_normalized l) \<longrightarrow>
      ws_normalized (lemmatize_valid_nouns tagger text) \<and>
      \<not> whitespace_only (lemmatize_valid_nouns tagger text) \<and>
      (lemmatize_valid_nouns tagger text = [] \<longleftrightarrow> lemmatize_loop (tagger text) [] = []))"
proof -
  note 1 = filter_stopwords_normalized [of stops "text"]
  note 2 = ws_normalized_not_blank [OF 1]
  note 3 = filter_stopwords_eq [of stops "text"]
  note 4 = filter_stopwords_empty_iff [of stops "text"]
  note 5 = remove_duplicates_normalized [of "text"]
  note 6 = ws_normalized_not_blank [OF 5]
  note 7 = remove_duplicates_eq [of "text"]
  note 8 = remove_duplicates_empty_iff [of "text"]
  note 9 = handle_word_synonym_eq [of synonyms "text"]
  have 10: "(\<forall>w\<in>set (py_split text).
        dict_get synonyms w w \<noteq> [] \<and> ws_normalized (dict_get synonyms w w)) \<longrightarrow>
      ws_normalized (handle_word_synonym synonyms text) \<and>
      \<not> whitespace_only (handle_word_synonym synonyms text) \<and>
      (handle_word_synonym synonyms text = [] \<longleftrightarrow> py_split text = [])"
    using handle_word_synonym_normalized [of "text" synonyms]
    by (simp add: ws_normalized_not_blank)
  have 11: "(\<forall>l\<in>set (lemmatize_loop (tagger text) []). l \<noteq> [] \<and> ws_normalized l) \<longrightarrow>
      ws_normalized (lemmatize_valid_nouns tagger text) \<and>
      \<not> whitespace_only (lemmatize_valid_nouns tagger text) \<and>
      (lemmatize_valid_nouns tagger text = [] \<longleftrightarrow> lemmatize_loop (tagger text) [] = [])"
    using lemmatize_valid_nouns_normalized [of tagger "text"]
    by (simp add: ws_normalized_not_blank)
  from 1 2 3 4 5 6 7 8 9 10 11 show ?thesis
    by (intro conjI)
qed

text \<open>
  The claim as stated fails for \<^verbatim>\<open>handle_word_synonym\<close>: with a dictionary
  that maps a word to the empty string, the input \<^verbatim>\<open>fresh fresh\<close> yields a
  single space.
\<close>

theorem stages_whitespace_normalized_counterexample:
  "handle_word_synonym [u ''fresh'' \<mapsto> u ''''] (u ''fresh fresh'') = u '' '' \<and>
   whitespace_only (handle_word_synonym [u ''fresh'' \<mapsto> u ''''] (u ''fresh fresh'')) \<and>
   \<not> ws_normalized (handle_word_synonym [u ''fresh'' \<mapsto> u ''''] (u ''fresh fresh''))"
  by code_simp

text \<open>
  Instances of the theorem; the words of the first input are separated by a
  no-break space (U+00A0) and an em space (U+2003).
\<close>

theorem stages_whitespace_normalized_witness:
  "filter_stopwords [u ''small''] (u ''small'' @ [0xA0] @ u ''lemon'' @ [0x2003] @ u ''zest'')
     = u ''lemon zest'' \<and>
   ws_normalized (filter_stopwords [u ''small'']
     (u ''small'' @ [0xA0] @ u ''lemon'' @ [0x2003] @ u ''zest'')) \<and>
   filter_stopwords [u ''zest''] (u ''zest'' @ [0xA0] @ u ''zest'') = [] \<and>
   remove_duplicates (u ''lemon   lemon zest lemon'') = u ''lemon zest'' \<and>
   ws_normalized (remove_duplicates (u ''lemon   lemon zest lemon'')) \<and>
   handle_word_synonym [u ''sili'' \<mapsto> u ''chili pepper''] (u ''red sili'')
     = u ''red chili pepper'' \<and>
   ws_normalized (handle_word_synonym [u ''sili'' \<mapsto> u ''chili pepper''] (u ''red sili'')) \<and>
   handle_word_synonym [u ''sili'' \<mapsto> u ''chili pepper''] (u ''red sili'') \<noteq> [] \<and>
   ws_normalized (lemmatize_valid_nouns example_tagger (u ''2 cups of cauliflower rice'')) \<and>
   lemmatize_valid_nouns example_tagger (u ''2 cups of cauliflower rice'') \<noteq> []"
proof -
  let ?nbsp = "u ''small'' @ [0xA0] @ u ''lemon'' @ [0x2003] @ u ''zest''"
  let ?syn = "[u ''sili'' \<mapsto> u ''chili pepper'']"
  have a: "\<forall>w\<in>set (py_split (u ''red sili'')).
     dict_get ?syn w w \<noteq> [] \<and> ws_normalized (dict_get ?syn w w)"
    by code_simp
  have b: "\<forall>l\<in>set (lemmatize_loop (example_tagger (u ''2 cups of cauliflower rice'')) []).
     l \<noteq> [] \<and> ws_normalized l"
    by code_simp
  have c: "join (map (\<lambda>w. dict_get ?syn w w) (py_split (u ''red sili''))) = u ''red chili pepper''"
    by code_simp
  have d: "join (filter (\<lambda>w. w \<notin> set [u ''small'']) (py_split ?nbsp)) = u ''lemon zest''"
    by code_simp
  have e: "join (first_occurrences (py_split (u ''lemon   lemon zest lemon''))) = u ''lemon zest''"
    by code_simp
  have f: "\<forall>w\<in>set (py_split (u ''zest'' @ [0xA0] @ u ''zest'')). w \<in> set [u ''zest'']"
    by code_simp
  have g: "py_split (u ''red sili'') \<noteq> []"
    by code_simp
  have h: "lemmatize_loop (example_tagger (u ''2 cups of cauliflower rice'')) [] \<noteq> []"
    by code_simp
  note S = stages_whitespace_normalized [of "[u ''small'']" ?nbsp Map.empty example_tagger]
  note Z = stages_whitespace_normalized [of "[u ''zest'']" "u ''zest'' @ [0xA0] @ u ''zest''"
      Map.empty example_tagger]
  note D = stages_whitespace_normalized [of "[]" "u ''lemon   lemon zest lemon''"
      Map.empty example_tagger]
  note H = stages_whitespace_normalized [of "[]" "u ''red sili''" ?syn example_tagger]
  note L = stages_whitespace_normalized [of "[]" "u ''2 cups of cauliflower rice''"
      Map.empty example_tagger]
  note H10 = H [THEN conjunct2, THEN conjunct2, THEN conjunct2, THEN conjunct2, THEN conjunct2,
      THEN conjunct2, THEN conjunct2, THEN conjunct2, THEN conjunct2, THEN conjunct1,
      THEN mp, OF a]
  note L11 = L [THEN conjunct2, THEN conjunct2, THEN conjunct2, THEN conjunct2, THEN conjunct2,
      THEN conjunct2, THEN conjunct2, THEN conjunct2, THEN conjunct2, THEN conjunct2,
      THEN mp, OF b]
  have 1: "filter_stopwords [u ''small''] ?nbsp = u ''lemon zest''"
    using S [THEN conjunct2, THEN conjunct2, THEN conjunct1] d by (rule trans)
  note 2 = S [THEN conjunct1]
  have 3: "filter_stopwords [u ''zest''] (u ''zest'' @ [0xA0] @ u ''zest'') = []"
    using Z [THEN conjunct2, THEN conjunct2, THEN conjunct2, THEN conjunct1] f by (rule iffD2)
  have 4: "remove_duplicates (u ''lemon   lemon zest lemon'') = u ''lemon zest''"
    using D [THEN conjunct2, THEN conjunct2, THEN conjunct2, THEN conjunct2, THEN conjunct2,
        THEN conjunct2, THEN conjunct1] e
    by (rule trans)
  note 5 = D [THEN conjunct2, THEN conjunct2, THEN conjunct2, THEN conjunct2, THEN conjunct1]
  have 6: "handle_word_synonym ?syn (u ''red sili'') = u ''red chili pepper''"
    using H [THEN conjunct2, THEN conjunct2, THEN conjunct2, THEN conjunct2, THEN conjunct2,
        THEN conjunct2, THEN conjunct2, THEN conjunct2, THEN conjunct1] c
    by (rule trans)
  note 7 = H10 [THEN conjunct1]
  have 8: "handle_word_synonym ?syn (u ''red sili'') \<noteq> []"
    using H10 [THEN conjunct2, THEN conjunct2] g by blast
  note 9 = L11 [THEN conjunct1]
  have 10: "lemmatize_valid_nouns example_tagger (u ''2 cups of cauliflower rice'') \<noteq> []"
    using L11 [THEN conjunct2, THEN conjunct2] h by blast
  from 1 2 3 4 5 6 7 8 9 10 show ?thesis
    by (intro conjI)
qed

section \<open>The contract of the cleaned ingredients\<close>

lemma flatten_loop_eq:
  "flatten_loop g raws acc =
     acc @ concat (map (\<lambda>i. jvalue_strings (preprocess_ingredient g i)) raws)"
  by (induction raws arbitrary: acc) (auto simp: jvalue_strings_def split: jvalue.splits)

lemma unique_of_normalized: "ws_normalized (unique_of g i)"
  by (simp add: unique_of_def remove_duplicates_normalized)

lemma preprocess_strings:
  assumes "s \<in> set (jvalue_strings (preprocess_ingredient g i))"
  shows "s = unique_of g i \<or> (\<exists>v\<in>ran (phrase_synonyms g). s \<in> set (jvalue_strings v))"
proof (cases "phrase_synonyms g (unique_of g i)")
  case None
  with assms show ?thesis
    by (simp add: preprocess_ingredient_def handle_phrase_synonym_def dict_get_def
        jvalue_strings_def)
next
  case (Some v)
  then have "v \<in> ran (phrase_synonyms g)"
    by (auto simp: ran_def)
  with assms Some show ?thesis
    by (auto simp: preprocess_ingredient_def handle_phrase_synonym_def dict_get_def)
qed

lemma clean_ingredients_not_blank:
  assumes "\<forall>v\<in>ran (phrase_synonyms g). \<forall>s\<in>set (jvalue_strings v). \<not> whitespace_only s"
    and "s \<in> set (clean_ingredients g raw)"
  shows "\<not> whitespace_only s"
proof -
  from assms(2) obtain i where "s \<in> set (jvalue_strings (preprocess_ingredient g i))"
    by (auto simp: clean_ingredients_def flatten_loop_eq)
  then consider "s = unique_of g i"
    | "\<exists>v\<in>ran (phrase_synonyms g). s \<in> set (jvalue_strings v)"
    using preprocess_strings by blast
  then show ?thesis
  proof cases
    case 1
    then show ?thesis
      using unique_of_normalized [of g i] by (simp add: ws_normalized_not_blank)
  next
    case 2
    with assms(1) show ?thesis by blast
  qed
qed

lemma cleaned_ok_clean_ingredients: "cleaned_ok g (clean_ingredients g raw)"
  using clean_ingredients_not_blank [of g _ raw]
  by (auto simp: cleaned_ok_def sorted_clean_ingredients distinct_clean_ingredients
      no_empty_clean_ingredients)

lemma cleaned_ok_filter: "cleaned_ok g xs \<Longrightarrow> cleaned_ok g (filter P xs)"
  by (auto simp: cleaned_ok_def sorted_wrt_filter)

lemma cleaned_ok_assign:
  "r \<in> set (assign_cleaned g recipe_df) \<Longrightarrow> cleaned_ok g (cleaned_ingredients r)"
  by (auto simp: assign_cleaned_def cleaned_ok_clean_ingredients)

lemma cleaned_ok_denylist:
  "\<forall>r\<in>set df. cleaned_ok g (cleaned_ingredients r) \<Longrightarrow>
     r \<in> set (apply_denylist to_remove df) \<Longrightarrow> cleaned_ok g (cleaned_ingredients r)"
  by (auto simp: apply_denylist_def remove_rare_ingredients_denylist_def cleaned_ok_filter)

lemma cleaned_ok_reduce:
  "\<forall>r\<in>set df. cleaned_ok g (cleaned_ingredients r) \<Longrightarrow>
     r \<in> set (reduce_ingredients to_remove mf df) \<Longrightarrow> cleaned_ok g (cleaned_ingredients r)"
  by (auto simp: reduce_ingredients_def apply_denylist_def remove_rare_ingredients_denylist_def
      remove_rare_ingredients_def cleaned_ok_filter Let_def)

lemma cleaned_ok_size:
  "\<forall>r\<in>set df. cleaned_ok g (cleaned_ingredients r) \<Longrightarrow>
     r \<in> set (filter_recipe_size mn mx df) \<Longrightarrow> cleaned_ok g (cleaned_ingredients r)"
  by (auto simp: filter_recipe_size_def)

text \<open>
  Claim C2, as amended. At every point after the aggregator has assigned it
  (after \<^verbatim>\<open>clean_ingredients\<close>, after the denylist removal, after the removal
  of the rare ingredients and after the size filter), the
  \<^verbatim>\<open>cleaned_ingredients\<close> of every recipe is in ascending lexicographic order,
  has no duplicate and contains no empty string. It contains no whitespace-only
  string provided no value of the phrase dictionary (a string, or an element of
  a list) is whitespace-only: such a value is returned by the lookup as it is,
  and \<^verbatim>\<open>filter(None, _)\<close> drops only the empty string.
\<close>

theorem cleaned_ingredients_invariant:
  assumes "r \<in> set (assign_cleaned g recipe_df)
         \<or> r \<in> set (apply_denylist to_remove (assign_cleaned g recipe_df))
         \<or> r \<in> set (reduce_ingredients to_remove min_frequency (assign_cleaned g recipe_df))
         \<or> r \<in> set (filter_recipe_size min_ingredient max_ingredient
                  (reduce_ingredients to_remove min_frequency (assign_cleaned g recipe_df)))"
  shows "sorted (cleaned_ingredients r) \<and> distinct (cleaned_ingredients r) \<and>
         [] \<notin> set (cleaned_ingredients r) \<and>
         ((\<forall>v\<in>ran (phrase_synonyms g). \<forall>s\<in>set (jvalue_strings v). \<not> whitespace_only s) \<longrightarrow>
            (\<forall>s\<in>set (cleaned_ingredients r). \<not> whitespace_only s))"
proof -
  have a: "\<forall>r\<in>set (assign_cleaned g recipe_df). cleaned_ok g (cleaned_ingredients r)"
    by (simp add: cleaned_ok_assign)
  then have b: "\<forall>r\<in>set (reduce_ingredients to_remove min_frequency (assign_cleaned g recipe_df)).
      cleaned_ok g (cleaned_ingredients r)"
    using cleaned_ok_reduce by blast
  have "cleaned_ok g (cleaned_ingredients r)"
    using assms a b cleaned_ok_denylist [OF a] cleaned_ok_size [OF b] by blast
  then show ?thesis
    by (simp add: cleaned_ok_def)
qed

text \<open>
  Instances of the theorem at two recipes of the example corpus: the first
  recipe right after the aggregator, with three cleaned ingredients, and the
  first recipe of the frame after the denylist, the rare-ingredient removal and
  the size filter, with two.
\<close>

theorem cleaned_ingredients_invariant_witness:
  "hd (assign_cleaned example_globals example_recipes)
     \<in> set (assign_cleaned example_globals example_recipes) \<and>
   cleaned_ingredients (hd (assign_cleaned example_globals example_recipes))
     = [u ''lemon'', u ''salt'', u ''soy''] \<and>
   sorted [u ''lemon'', u ''salt'', u ''soy''] \<and>
   distinct [u ''lemon'', u ''salt'', u ''soy''] \<and>
   [] \<notin> set [u ''lemon'', u ''salt'', u ''soy''] \<and>
   \<not> whitespace_only (u ''soy'') \<and>
   hd (filter_recipe_size 2 9 (reduce_ingredients [u ''salt''] 0
        (assign_cleaned example_globals example_recipes)))
     \<in> set (filter_recipe_size 2 9 (reduce_ingredients [u ''salt''] 0
        (assign_cleaned example_globals example_recipes))) \<and>
   cleaned_ingredients (hd (filter_recipe_size 2 9 (reduce_ingredients [u ''salt''] 0
        (assign_cleaned example_globals example_recipes)))) = [u ''lemon'', u ''soy''] \<and>
   sorted [u ''lemon'', u ''soy''] \<and>
   distinct [u ''lemon'', u ''soy''] \<and>
   [] \<notin> set [u ''lemon'', u ''soy''] \<and>
   \<not> whitespace_only (u ''lemon'')"
proof -
  let ?df1 = "assign_cleaned example_globals example_recipes"
  let ?df2 = "filter_recipe_size 2 9 (reduce_ingredients [u ''salt''] 0 ?df1)"
  have "length ?df1 = 2"
    by code_simp
  then have "?df1 \<noteq> []"
    by auto
  then have m1: "hd ?df1 \<in> set ?df1"
    by (rule hd_in_set)
  have "length ?df2 = 2"
    by code_simp
  then have "?df2 \<noteq> []"
    by auto
  then have m2: "hd ?df2 \<in> set ?df2"
    by (rule hd_in_set)
  have c1: "cleaned_ingredients (hd ?df1) = [u ''lemon'', u ''salt'', u ''soy'']"
    by code_simp
  have c2: "cleaned_ingredients (hd ?df2) = [u ''lemon'', u ''soy'']"
    by code_simp
  have h: "\<forall>v\<in>ran (phrase_synonyms example_globals).
      \<forall>s\<in>set (jvalue_strings v). \<not> whitespace_only s"
    by (simp add: example_globals_def jvalue_strings_def whitespace_only_def is_space_def)
  have e1: "u ''soy'' \<in> set (cleaned_ingredients (hd ?df1))"
    unfolding c1 by simp
  have e2: "u ''lemon'' \<in> set (cleaned_ingredients (hd ?df2))"
    unfolding c2 by simp
  note t1 = cleaned_ingredients_invariant [OF disjI1, OF m1]
  note t2 = cleaned_ingredients_invariant [OF disjI2, OF disjI2, OF disjI2, OF m2]
  note s1 = t1 [THEN conjunct1, unfolded c1]
  note d1 = t1 [THEN conjunct2, THEN conjunct1, unfolded c1]
  note n1 = t1 [THEN conjunct2, THEN conjunct2, THEN conjunct1, unfolded c1]
  note w1 = t1 [THEN conjunct2, THEN conjunct2, THEN conjunct2, THEN mp, OF h, THEN bspec, OF e1]
  note s2 = t2 [THEN conjunct1, unfolded c2]
  note d2 = t2 [THEN conjunct2, THEN conjunct1, unfolded c2]
  note n2 = t2 [THEN conjunct2, THEN conjunct2, THEN conjunct1, unfolded c2]
  note w2 = t2 [THEN conjunct2, THEN conjunct2, THEN conjunct2, THEN mp, OF h, THEN bspec, OF e2]
  from m1 c1 s1 d1 n1 w1 m2 c2 s2 d2 n2 w2 show ?thesis
    by (intro conjI)
qed

text \<open>
  The claim as stated fails on the whitespace-only part: with a phrase
  dictionary that maps \<^verbatim>\<open>lemon\<close> to a single space, the recipe with the one
  ingredient \<^verbatim>\<open>1 lemon\<close> gets a single space as its cleaned ingredient.
\<close>

theorem cleaned_ingredients_invariant_counterexample:
  "clean_ingredients blank_globals [u ''1 lemon''] = [u '' ''] \<and> whitespace_only (u '' '')"
  by code_simp

section \<open>Running the aggregator on its own output\<close>

lemma concat_map_singletons: "\<forall>t\<in>set xs. f t = [t] \<Longrightarrow> concat (map f xs) = xs"
  by (induction xs) auto

text \<open>
  Claim C6, as amended. Running \<^verbatim>\<open>clean_ingredients\<close> again on a recipe's own
  \<^verbatim>\<open>cleaned_ingredients\<close> gives the same list, provided that every token of
  it is reproduced by the per-ingredient pipeline, that is, contributes exactly
  itself. Nothing in the code makes the dictionaries and the tagger map
  canonical tokens to themselves.
\<close>

theorem idempotent_on_fixed_points:
  assumes "\<forall>t\<in>set (clean_ingredients g raw). jvalue_strings (preprocess_ingredient g t) = [t]"
  shows "clean_ingredients g (clean_ingredients g raw) = clean_ingredients g raw"
proof -
  let ?c = "clean_ingredients g raw"
  have "flatten_loop g ?c [] = ?c"
    using assms by (simp add: flatten_loop_eq concat_map_singletons)
  moreover have "filter (\<lambda>s. s \<noteq> []) ?c = ?c"
    using no_empty_clean_ingredients [of g raw] by (auto intro!: filter_True)
  moreover have "sort (remdups ?c) = ?c"
    by (simp add: distinct_clean_ingredients sorted_clean_ingredients sorted_sort_id)
  ultimately show ?thesis
    by (simp add: clean_ingredients_def [of g ?c])
qed

theorem idempotent_on_fixed_points_witness:
  "clean_ingredients example_globals [u ''2 cup Toyo (dark)'', u ''small lemon lemons or 6 calamansi'']
     = [u ''lemon'', u ''salt'', u ''soy''] \<and>
   clean_ingredients example_globals
     (clean_ingredients example_globals
        [u ''2 cup Toyo (dark)'', u ''small lemon lemons or 6 calamansi''])
     = clean_ingredients example_globals
        [u ''2 cup Toyo (dark)'', u ''small lemon lemons or 6 calamansi'']"
proof -
  have c: "clean_ingredients example_globals
      [u ''2 cup Toyo (dark)'', u ''small lemon lemons or 6 calamansi''] = [u ''lemon'', u ''salt'', u ''soy'']"
    by code_simp
  have f: "\<forall>t\<in>set (clean_ingredients example_globals
      [u ''2 cup Toyo (dark)'', u ''small lemon lemons or 6 calamansi'']).
      jvalue_strings (preprocess_ingredient example_globals t) = [t]"
    by code_simp
  show ?thesis
    using c idempotent_on_fixed_points [OF f] by (intro conjI)
qed

text \<open>
  The claim as stated fails: with \<^verbatim>\<open>sauce\<close> as a culinary stopword and a
  phrase dictionary that maps \<^verbatim>\<open>patis\<close> to \<^verbatim>\<open>fish sauce\<close>, the first run
  yields \<^verbatim>\<open>fish sauce\<close> and the second run, on that output, yields \<^verbatim>\<open>fish\<close>.
\<close>

theorem idempotence_counterexample:
  "clean_ingredients sauce_globals [u ''patis''] = [u ''fish sauce''] \<and>
   clean_ingredients sauce_globals (clean_ingredients sauce_globals [u ''patis'']) = [u ''fish''] \<and>
   set (clean_ingredients sauce_globals (clean_ingredients sauce_globals [u ''patis'']))
     \<noteq> set (clean_ingredients sauce_globals [u ''patis''])"
  by code_simp

section \<open>Determinism\<close>

text \<open>
  Claim C9. The result of \<^verbatim>\<open>clean_ingredients\<close> does not depend on the order
  in which the Python set lists the distinct nonempty strings: sorting any
  duplicate-free enumeration of them gives the same list. The column assigned
  to a recipe is a function of the dictionaries, the tagger and the recipe's own
  ingredient lines only, so processing the corpus in another order assigns the
  same \<^verbatim>\<open>cleaned_ingredients\<close> to the same recipes.
\<close>

theorem deterministic:
  "(distinct ys \<and> set ys = set (filter (\<lambda>s. s \<noteq> []) (flatten_loop g raw [])) \<longrightarrow>
      sort ys = clean_ingredients g raw) \<and>
   (mset recipe_df' = mset recipe_df \<longrightarrow>
      mset (assign_cleaned g recipe_df') = mset (assign_cleaned g recipe_df)) \<and>
   (\<forall>r\<in>set (assign_cleaned g recipe_df).
      cleaned_ingredients r = clean_ingredients g (ingredients r))"
proof (intro conjI impI)
  assume "distinct ys \<and> set ys = set (filter (\<lambda>s. s \<noteq> []) (flatten_loop g raw []))"
  then have "set (sort ys) = set (clean_ingredients g raw)" "distinct (sort ys)"
    by (simp_all add: clean_ingredients_def)
  then show "sort ys = clean_ingredients g raw"
    using sorted_distinct_set_unique [of "sort ys" "clean_ingredients g raw"]
    by (simp add: sorted_clean_ingredients distinct_clean_ingredients)
next
  assume "mset recipe_df' = mset recipe_df"
  then show "mset (assign_cleaned g recipe_df') = mset (assign_cleaned g recipe_df)"
    by (simp add: assign_cleaned_def)
next
  show "\<forall>r\<in>set (assign_cleaned g recipe_df).
      cleaned_ingredients r = clean_ingredients g (ingredients r)"
    by (auto simp: assign_cleaned_def)
qed

theorem deterministic_witness:
  "sort [u ''soy'', u ''lemon'', u ''salt'']
     = clean_ingredients example_globals
         [u ''2 cup Toyo (dark)'', u ''small lemon lemons or 6 calamansi''] \<and>
   mset (assign_cleaned example_globals (rev example_recipes))
     = mset (assign_cleaned example_globals example_recipes)"
proof -
  have a: "distinct [u ''soy'', u ''lemon'', u ''salt''] \<and>
      set [u ''soy'', u ''lemon'', u ''salt''] =
      set (filter (\<lambda>s. s \<noteq> []) (flatten_loop example_globals
        [u ''2 cup Toyo (dark)'', u ''small lemon lemons or 6 calamansi''] []))"
    by code_simp
  have b: "mset (rev example_recipes) = mset example_recipes"
    by simp
  note t = deterministic [of "[u ''soy'', u ''lemon'', u ''salt'']" example_globals
      "[u ''2 cup Toyo (dark)'', u ''small lemon lemons or 6 calamansi'']"
      "rev example_recipes" example_recipes]
  show ?thesis
    using t [THEN conjunct1, THEN mp, OF a] t [THEN conjunct2, THEN conjunct1, THEN mp, OF b]
    by (intro conjI)
qed

section \<open>The sequence contributed by one ingredient\<close>

lemma nonempty_results_then_stage:
  "nonempty_results f (concat (map (\<lambda>i. case g i of None \<Rightarrow> [] | Some s \<Rightarrow> [s]) x)) =
     concat (map (\<lambda>i. case then_stage f (g i) of None \<Rightarrow> [] | Some s \<Rightarrow> [s]) x)"
  by (induction x) (auto simp: nonempty_results_def then_stage_def split: option.splits)

lemma list_as_options: "x = concat (map (\<lambda>i. case Some i of None \<Rightarrow> [] | Some s \<Rightarrow> [s]) x)"
  by (induction x) auto

lemma concat_map_option:
  "concat (map f (concat (map (\<lambda>i. case g i of None \<Rightarrow> [] | Some s \<Rightarrow> [s]) x))) =
     concat (map (\<lambda>i. case g i of None \<Rightarrow> [] | Some s \<Rightarrow> f s) x)"
  by (induction x) (auto split: option.splits)

lemma components_column_eq:
  "components_column e x = concat (map (ingredient_pipeline_spec e) x)"
proof -
  let ?clean = "clean_ingredient (assoc_unicode_lower e)"
  have "nonempty_results ?clean x =
      concat (map (\<lambda>i. case then_stage ?clean (Some i) of None \<Rightarrow> [] | Some s \<Rightarrow> [s]) x)"
    using nonempty_results_then_stage [of ?clean Some x] list_as_options [of x]
    by simp
  then show ?thesis
    by (simp add: components_column_def ingredient_pipeline_spec_def [abs_def] Let_def
        nonempty_results_then_stage concat_map_option)
qed

lemma lemmatize_nouns_eq: "lemmatize_nouns tagger s = lemmatize_valid_nouns tagger s"
proof -
  have "lemmatize_nouns_loop doc acc = lemmatize_loop doc acc" for doc acc
    by (induction doc arbitrary: acc) (auto simp: Let_def correct_noun_pos_tags_def)
  then show ?thesis
    by (simp add: lemmatize_nouns_def lemmatize_valid_nouns_def)
qed

text \<open>
  Claim C1. What one raw ingredient contributes to the flattened list of
  \<^verbatim>\<open>clean_ingredients\<close> is decided by one lookup of the deduplicated string:
  the mapped list as it is when the entry is a list, the mapped string alone
  when it is a string, the string itself alone when there is no entry; the
  contributions of the ingredients of a recipe are concatenated in order. In
  the association notebook the \<^verbatim>\<open>components\<close> column is the concatenation of
  the per-ingredient pipeline results, each of them empty when a stage yields
  the empty string and otherwise \<^verbatim>\<open>break_down_ingredient\<close> of the
  phrase-resolved string, which is the mapped list as it is, the one mapped
  string, or the phrase itself. The components are returned without a second
  lookup.
\<close>

theorem ingredient_pipeline_sequence:
  "flatten_loop g raws [] = concat (map (\<lambda>i. flatten_loop g [i] []) raws) \<and>
   flatten_loop g [ingredient] [] =
     (case phrase_synonyms g (unique_of g ingredient) of
        None \<Rightarrow> [unique_of g ingredient]
      | Some (JStr s) \<Rightarrow> [s]
      | Some (JList cs) \<Rightarrow> cs) \<and>
   components_column e x = concat (map (ingredient_pipeline_spec e) x) \<and>
   break_down_ingredient components phrase =
     (case components phrase of
        None \<Rightarrow> [phrase]
      | Some (JStr s) \<Rightarrow> [s]
      | Some (JList cs) \<Rightarrow> cs)"
proof -
  have "flatten_loop g raws [] = concat (map (\<lambda>i. flatten_loop g [i] []) raws)"
    by (simp add: flatten_loop_eq)
  moreover have "flatten_loop g [ingredient] [] =
     (case phrase_synonyms g (unique_of g ingredient) of
        None \<Rightarrow> [unique_of g ingredient]
      | Some (JStr s) \<Rightarrow> [s]
      | Some (JList cs) \<Rightarrow> cs)"
    by (auto simp: flatten_loop_eq preprocess_ingredient_def handle_phrase_synonym_def
        dict_get_def jvalue_strings_def split: option.splits jvalue.splits)
  moreover have "break_down_ingredient components phrase =
     (case components phrase of
        None \<Rightarrow> [phrase]
      | Some (JStr s) \<Rightarrow> [s]
      | Some (JList cs) \<Rightarrow> cs)"
    by (auto simp: dict_get_def break_down_ingredient_def split: option.splits jvalue.splits)
  ultimately show ?thesis
    using components_column_eq [of e x] by (intro conjI)
qed

theorem ingredient_pipeline_sequence_witness:
  "flatten_loop nested_globals [u ''Toyo (dark)''] [] = [u ''soy'', u ''salt''] \<and>
   flatten_loop nested_globals [u ''2 lemon''] [] = [u ''lemon''] \<and>
   flatten_loop nested_globals [u ''(optional)''] [] = [u ''''] \<and>
   components_column example_assoc_globals [u ''2 cup Toyo (dark)'', u ''(optional)'', u ''1 Lemon'']
     = [u ''soybean'', u ''salt'', u ''lemon''] \<and>
   break_down_ingredient nested_components (u ''adobo sauce'') = [u ''toyo'', u ''vinegar''] \<and>
   break_down_ingredient nested_components (u ''sili'') = [u ''chili''] \<and>
   break_down_ingredient nested_components (u ''lemon'') = [u ''lemon'']"
proof -
  have a: "(case phrase_synonyms nested_globals (unique_of nested_globals (u ''Toyo (dark)'')) of
        None \<Rightarrow> [unique_of nested_globals (u ''Toyo (dark)'')]
      | Some (JStr s) \<Rightarrow> [s]
      | Some (JList cs) \<Rightarrow> cs) = [u ''soy'', u ''salt'']"
    by code_simp
  have b: "(case phrase_synonyms nested_globals (unique_of nested_globals (u ''2 lemon'')) of
        None \<Rightarrow> [unique_of nested_globals (u ''2 lemon'')]
      | Some (JStr s) \<Rightarrow> [s]
      | Some (JList cs) \<Rightarrow> cs) = [u ''lemon'']"
    by code_simp
  have c: "(case phrase_synonyms nested_globals (unique_of nested_globals (u ''(optional)'')) of
        None \<Rightarrow> [unique_of nested_globals (u ''(optional)'')]
      | Some (JStr s) \<Rightarrow> [s]
      | Some (JList cs) \<Rightarrow> cs) = [u '''']"
    by code_simp
  have d: "(case nested_components (u ''adobo sauce'') of
        None \<Rightarrow> [u ''adobo sauce''] | Some (JStr s) \<Rightarrow> [s] | Some (JList cs) \<Rightarrow> cs)
      = [u ''toyo'', u ''vinegar'']"
    by code_simp
  have e: "(case nested_components (u ''sili'') of
        None \<Rightarrow> [u ''sili''] | Some (JStr s) \<Rightarrow> [s] | Some (JList cs) \<Rightarrow> cs) = [u ''chili'']"
    by code_simp
  have f: "(case nested_components (u ''lemon'') of
        None \<Rightarrow> [u ''lemon''] | Some (JStr s) \<Rightarrow> [s] | Some (JList cs) \<Rightarrow> cs) = [u ''lemon'']"
    by code_simp
  have h: "concat (map (ingredient_pipeline_spec example_assoc_globals)
        [u ''2 cup Toyo (dark)'', u ''(optional)'', u ''1 Lemon'']) = [u ''soybean'', u ''salt'', u ''lemon'']"
    by code_simp
  note p = ingredient_pipeline_sequence [THEN conjunct2, THEN conjunct1]
  note q = ingredient_pipeline_sequence [THEN conjunct2, THEN conjunct2, THEN conjunct2]
  note r = ingredient_pipeline_sequence [THEN conjunct2, THEN conjunct2, THEN conjunct1]
  show ?thesis
    by (intro conjI)
      (simp_all only: p [of nested_globals] q [of nested_components]
        r [of example_assoc_globals] a b c d e f h)
qed

section \<open>The text cleaner\<close>

text \<open>The closing parenthesis is the code point 41.\<close>

lemma close_paren_append: "41 \<notin> set p \<Longrightarrow> close_paren (p @ 41 # rest) = Some rest"
  by (induction p) auto

lemma no_parenthesis_plain: "cp CHR ''('' \<notin> set t \<Longrightarrow> no_parenthesis t = t"
  by (induction t) auto

lemma no_parenthesis_group:
  "cp CHR ''('' \<notin> set t \<Longrightarrow> (cp CHR '')'') \<notin> set p \<Longrightarrow>
     no_parenthesis (t @ u ''('' @ p @ u '')'' @ rest) = t @ no_parenthesis rest"
  by (induction t) (auto simp: close_paren_append)

lemma paren_group_not_open [simp]: "c \<noteq> cp CHR ''('' \<Longrightarrow> paren_group (c # s) = None"
  by (cases s) auto

lemma paren_group_plain:
  "cp CHR ''('' \<notin> set t \<Longrightarrow> paren_group (t @ rest) = (if t = [] then paren_group rest else None)"
  by (cases t) auto

lemma paren_group_match:
  "p \<noteq> [] \<Longrightarrow> (cp CHR '')'') \<notin> set p \<Longrightarrow> paren_group (u ''('' @ p @ u '')'' @ rest) = Some rest"
  by (cases p) (auto simp: close_paren_append)

lemma remove_parentheses_plain: "cp CHR ''('' \<notin> set t \<Longrightarrow> remove_parentheses t = t"
proof (induction t)
  case Nil
  then show ?case by simp
next
  case (Cons c t)
  then have "paren_group t = None" "paren_group (c # t) = None"
    using paren_group_plain [of t "[]"] paren_group_plain [of "c # t" "[]"] by auto
  with Cons show ?case by simp
qed

lemma remove_parentheses_group_space:
  assumes "cp CHR ''('' \<notin> set t" "p \<noteq> []" "cp CHR '')'' \<notin> set p"
  shows "remove_parentheses (t @ u '' ('' @ p @ u '')'' @ rest) = t @ remove_parentheses rest"
  using assms(1)
proof (induction t)
  case Nil
  have "paren_group (u ''('' @ p @ u '')'' @ rest) = Some rest"
    using assms(2,3) by (rule paren_group_match)
  then show ?case by simp
next
  case (Cons c t)
  have "paren_group (t @ u '' ('' @ p @ u '')'' @ rest) = None"
    using Cons.prems paren_group_plain [of t "u '' ('' @ p @ u '')'' @ rest"] by simp
  moreover have "paren_group (c # t @ u '' ('' @ p @ u '')'' @ rest) = None"
    using Cons.prems paren_group_plain [of "c # t" "u '' ('' @ p @ u '')'' @ rest"] by simp
  ultimately show ?case
    using Cons by simp
qed

lemma remove_parentheses_group:
  assumes "p \<noteq> []" "cp CHR '')'' \<notin> set p"
  shows "cp CHR ''('' \<notin> set t \<Longrightarrow> t = [] \<or> last t \<noteq> cp CHR '' '' \<Longrightarrow>
     remove_parentheses (t @ u ''('' @ p @ u '')'' @ rest) = t @ remove_parentheses rest"
proof (induction t)
  case Nil
  have "paren_group (u ''('' @ p @ u '')'' @ rest) = Some rest"
    using assms by (rule paren_group_match)
  then show ?case by simp
next
  case (Cons c t)
  have 1: "paren_group (c # t @ u ''('' @ p @ u '')'' @ rest) = None"
    using Cons.prems paren_group_plain [of "c # t" "u ''('' @ p @ u '')'' @ rest"] by simp
  have 2: "paren_group (t @ u ''('' @ p @ u '')'' @ rest) = None" if "c = cp CHR '' ''"
  proof -
    from that Cons.prems have "t \<noteq> []" by auto
    then show ?thesis
      using Cons.prems paren_group_plain [of t "u ''('' @ p @ u '')'' @ rest"] by simp
  qed
  have 3: "t = [] \<or> last t \<noteq> cp CHR '' ''"
    using Cons.prems by (auto split: if_splits)
  show ?case
    using Cons.IH [OF _ 3] Cons.prems 1 2 by auto
qed

lemma remove_parentheses_empty_group:
  "cp CHR ''('' \<notin> set t \<Longrightarrow>
     remove_parentheses (t @ u ''()'' @ rest) = t @ u ''()'' @ remove_parentheses rest"
proof (induction t)
  case Nil
  then show ?case by simp
next
  case (Cons c t)
  have "paren_group (c # t @ u ''()'' @ rest) = None"
    using Cons.prems paren_group_plain [of "c # t" "u ''()'' @ rest"] by simp
  moreover have "paren_group (t @ u ''()'' @ rest) = None"
    using Cons.prems paren_group_plain [of t "u ''()'' @ rest"] by simp
  ultimately show ?case
    using Cons by simp
qed

lemma select_first_option_none: "\<not> has_or s \<Longrightarrow> select_first_option s = s"
  by (induction s) auto

lemma prefix_or_append:
  "length xs \<ge> 4 \<Longrightarrow> prefix (u '' or '') (xs @ ys) \<longleftrightarrow> prefix (u '' or '') xs"
  by (cases xs; cases "tl xs"; cases "tl (tl xs)"; cases "tl (tl (tl xs))") auto

lemma select_first_option_first:
  "\<not> has_or (a @ u '' or'') \<Longrightarrow> select_first_option (a @ u '' or '' @ b) = a"
proof (induction a)
  case Nil
  then show ?case by simp
next
  case (Cons c a)
  have "prefix (u '' or '') ((c # a @ u '' or'') @ u '' '' @ b) \<longleftrightarrow> prefix (u '' or '') (c # a @ u '' or'')"
    by (rule prefix_or_append) simp
  with Cons show ?case by simp
qed

lemma strip_ends:
  "strip s = [] \<or> (\<not> is_space (hd (strip s)) \<and> \<not> is_space (last (strip s)))"
proof (cases "strip s = []")
  case True
  then show ?thesis by simp
next
  case False
  let ?u = "dropWhile is_space s"
  let ?v = "dropWhile is_space (rev ?u)"
  from False have v: "?v \<noteq> []"
    by (simp add: strip_def)
  then have u: "?u \<noteq> []"
    by (metis dropWhile.simps(1) rev.simps(1))
  have "\<not> is_space (hd ?v)"
    using v by (rule hd_dropWhile)
  then have l: "\<not> is_space (last (strip s))"
    by (simp add: strip_def last_rev)
  have "rev ?u = takeWhile is_space (rev ?u) @ ?v"
    by simp
  then have "last (rev ?u) = last ?v"
    using v by (metis last_appendR)
  then have "hd (strip s) = hd ?u"
    by (simp add: strip_def hd_rev last_rev)
  moreover have "\<not> is_space (hd ?u)"
    using u by (rule hd_dropWhile)
  ultimately show ?thesis
    using l by simp
qed

lemma lower_char_not_upper: "\<not> is_upper_latin1 (lower_char c)"
  by (auto simp: lower_char_def is_upper_latin1_def)

lemma strip_decompose:
  "x = takeWhile is_space x @ strip x @ rev (takeWhile is_space (rev (dropWhile is_space x)))"
proof -
  let ?u = "dropWhile is_space x"
  have "rev (takeWhile is_space (rev ?u) @ dropWhile is_space (rev ?u)) = ?u"
    by (simp only: takeWhile_dropWhile_id rev_rev_ident)
  then have "rev (dropWhile is_space (rev ?u)) @ rev (takeWhile is_space (rev ?u)) = ?u"
    by (simp only: rev_append)
  then have "?u = strip x @ rev (takeWhile is_space (rev ?u))"
    by (simp only: strip_def)
  moreover have "x = takeWhile is_space x @ ?u"
    by simp
  ultimately show ?thesis
    by metis
qed

lemma lower_latin1:
  "list_all (\<lambda>c. c < 256) x \<Longrightarrow>
     lower tbl x = map lower_char x \<and>
     (\<forall>c\<in>set (lower tbl x). \<not> is_upper_latin1 c)"
  using lower_char_not_upper by (auto simp: lower_def)

text \<open>
  Claim C5, as amended. Both cleaners run three steps in the claimed order:
  removal of parenthesized text, the text before the first \<^verbatim>\<open>" or "\<close>, then
  lower-casing and trimming; both accept every string. The first step differs
  between the notebooks. \<^verbatim>\<open>clean_ingredient\<close> (association notebook) removes
  each group \<^verbatim>\<open>(...)\<close> with nonempty content up to the first closing
  parenthesis, together with one space directly before it, and keeps an empty
  pair \<^verbatim>\<open>()\<close>. \<^verbatim>\<open>preprocess_ingredient\<close> (main notebook) removes each group
  up to the first closing parenthesis, the empty pair too, and keeps the space
  before it, which only the trimming of step 3 removes at the end of the string.
  Text without an opening parenthesis is unchanged by either. The second step
  returns the whole string when the delimiter does not occur and the text before
  its leftmost occurrence otherwise. The third step applies \<^verbatim>\<open>str.lower\<close> and
  then removes exactly the leading and trailing whitespace, of every Unicode
  whitespace character; on a string of code points below 256 the lower-casing
  is character by character and leaves no upper-case letter of that range.
\<close>

theorem text_cleaner_steps:
  "clean_ingredient tbl s =
     strip (lower tbl (select_first_option (remove_parentheses s))) \<and>
   formatted tbl s =
     strip (lower tbl (select_first_option (no_parenthesis s))) \<and>
   (cp CHR ''('' \<notin> set t \<longrightarrow> remove_parentheses t = t \<and> no_parenthesis t = t) \<and>
   (cp CHR ''('' \<notin> set t \<and> cp CHR '')'' \<notin> set p \<longrightarrow>
      no_parenthesis (t @ u ''('' @ p @ u '')'' @ rest) = t @ no_parenthesis rest) \<and>
   (cp CHR ''('' \<notin> set t \<and> p \<noteq> [] \<and> cp CHR '')'' \<notin> set p \<longrightarrow>
      remove_parentheses (t @ u '' ('' @ p @ u '')'' @ rest) = t @ remove_parentheses rest) \<and>
   (cp CHR ''('' \<notin> set t \<and> (t = [] \<or> last t \<noteq> cp CHR '' '') \<and> p \<noteq> [] \<and>
      cp CHR '')'' \<notin> set p \<longrightarrow>
      remove_parentheses (t @ u ''('' @ p @ u '')'' @ rest) = t @ remove_parentheses rest) \<and>
   (cp CHR ''('' \<notin> set t \<longrightarrow>
      remove_parentheses (t @ u ''()'' @ rest) = t @ u ''()'' @ remove_parentheses rest) \<and>
   (\<not> has_or w \<longrightarrow> select_first_option w = w) \<and>
   (\<not> has_or (a @ u '' or'') \<longrightarrow> select_first_option (a @ u '' or '' @ b) = a) \<and>
   x = takeWhile is_space x @ strip x @ rev (takeWhile is_space (rev (dropWhile is_space x))) \<and>
   (strip x = [] \<or> (\<not> is_space (hd (strip x)) \<and> \<not> is_space (last (strip x)))) \<and>
   (list_all (\<lambda>c. c < 256) x \<longrightarrow>
      lower tbl x = map lower_char x \<and>
      (\<forall>c\<in>set (lower tbl x). \<not> is_upper_latin1 c))"
proof -
  have 1: "clean_ingredient tbl s =
     strip (lower tbl (select_first_option (remove_parentheses s)))"
    by (simp add: clean_ingredient_def)
  have 2: "formatted tbl s =
     strip (lower tbl (select_first_option (no_parenthesis s)))"
    by (simp add: formatted_def)
  have 3: "cp CHR ''('' \<notin> set t \<longrightarrow> remove_parentheses t = t \<and> no_parenthesis t = t"
    by (simp add: remove_parentheses_plain no_parenthesis_plain)
  have 4: "cp CHR ''('' \<notin> set t \<and> cp CHR '')'' \<notin> set p \<longrightarrow>
      no_parenthesis (t @ u ''('' @ p @ u '')'' @ rest) = t @ no_parenthesis rest"
    using no_parenthesis_group [of t p rest] by blast
  have 5: "cp CHR ''('' \<notin> set t \<and> p \<noteq> [] \<and> cp CHR '')'' \<notin> set p \<longrightarrow>
      remove_parentheses (t @ u '' ('' @ p @ u '')'' @ rest) = t @ remove_parentheses rest"
    using remove_parentheses_group_space [of t p rest] by blast
  have 6: "cp CHR ''('' \<notin> set t \<and> (t = [] \<or> last t \<noteq> cp CHR '' '') \<and> p \<noteq> [] \<and>
      cp CHR '')'' \<notin> set p \<longrightarrow>
      remove_parentheses (t @ u ''('' @ p @ u '')'' @ rest) = t @ remove_parentheses rest"
    using remove_parentheses_group [of p t rest] by blast
  have 7: "cp CHR ''('' \<notin> set t \<longrightarrow>
      remove_parentheses (t @ u ''()'' @ rest) = t @ u ''()'' @ remove_parentheses rest"
    using remove_parentheses_empty_group [of t rest] by blast
  have 8: "\<not> has_or w \<longrightarrow> select_first_option w = w"
    by (simp add: select_first_option_none)
  have 9: "\<not> has_or (a @ u '' or'') \<longrightarrow> select_first_option (a @ u '' or '' @ b) = a"
    using select_first_option_first [of a b] by blast
  note 10 = strip_decompose [of x]
  note 11 = strip_ends [of x]
  have 12: "list_all (\<lambda>c. c < 256) x \<longrightarrow>
      lower tbl x = map lower_char x \<and>
      (\<forall>c\<in>set (lower tbl x). \<not> is_upper_latin1 c)"
    using lower_latin1 [of x tbl] by blast
  from 1 2 3 4 5 6 7 8 9 10 11 12 show ?thesis
    by (intro conjI)
qed

text \<open>
  The claim as stated fails on step 1: in the main notebook the substitution
  maps \<^verbatim>\<open>1 cup flour (all-purpose)\<close> to \<^verbatim>\<open>1 cup flour\<close> followed by a space,
  and in the association notebook an empty pair of parentheses is not removed.
\<close>

theorem text_cleaner_steps_counterexample:
  "no_parenthesis (u ''1 cup flour (all-purpose)'') = u ''1 cup flour '' \<and>
   no_parenthesis (u ''1 cup flour (all-purpose)'') \<noteq> u ''1 cup flour'' \<and>
   remove_parentheses (u ''salt ()'') = u ''salt ()''"
  by simp

text \<open>
  Instances of the theorem: the example of the claim in both notebooks, a group
  without a space before it, the empty pair, the delimiter, an input that
  cleans to the empty string, and two inputs beyond ASCII: a trailing no-break
  space (U+00A0) is trimmed, and the capital N with tilde (U+00D1) is
  lower-cased to U+00F1.
\<close>

theorem text_cleaner_steps_witness:
  "clean_ingredient example_unicode_lower (u ''1 cup Flour (all-purpose) or rice flour'')
     = u ''1 cup flour'' \<and>
   formatted example_unicode_lower (u ''1 cup Flour (all-purpose) or rice flour'')
     = u ''1 cup flour'' \<and>
   remove_parentheses (u ''1 cup flour (all-purpose)'') = u ''1 cup flour'' \<and>
   remove_parentheses (u ''flour(all-purpose)'') = u ''flour'' \<and>
   no_parenthesis (u ''1 cup flour (all-purpose)'') = u ''1 cup flour '' \<and>
   remove_parentheses (u ''salt ()'') = u ''salt ()'' \<and>
   select_first_option (u ''lemon or calamansi or lime'') = u ''lemon'' \<and>
   select_first_option (u ''flour'') = u ''flour'' \<and>
   clean_ingredient example_unicode_lower (u ''(optional)'') = [] \<and>
   remove_parentheses (u ''2 eggs'') = u ''2 eggs'' \<and>
   no_parenthesis (u ''2 eggs'') = u ''2 eggs'' \<and>
   \<not> is_space (hd (strip (u ''  Egg yolk ''))) \<and>
   clean_ingredient example_unicode_lower (u ''1 tsp Salt'' @ [0xA0]) = u ''1 tsp salt'' \<and>
   formatted example_unicode_lower (u ''PI'' @ [0xD1] @ u ''A Colada'')
     = u ''pi'' @ [0xF1] @ u ''a colada'' \<and>
   lower example_unicode_lower (u ''PI'' @ [0xD1] @ u ''A'') = u ''pi'' @ [0xF1] @ u ''a''"
proof -
  note T = text_cleaner_steps [of example_unicode_lower
      "u ''1 cup Flour (all-purpose) or rice flour''"
      "u ''1 cup flour''" "u ''all-purpose''" "[]" "u ''flour''" "u ''lemon''"
      "u ''calamansi or lime''" "[]"]
  note U = text_cleaner_steps [of example_unicode_lower "[]" "u ''flour''" "u ''all-purpose''"
      "[]" "[]" "[]" "[]" "[]"]
  note V = text_cleaner_steps [of example_unicode_lower "[]" "u ''1 cup flour ''"
      "u ''all-purpose''" "[]" "[]" "[]" "[]" "[]"]
  note W = text_cleaner_steps [of example_unicode_lower "[]" "u ''salt ''" "[]" "[]" "[]" "[]"
      "[]" "[]"]
  have a: "strip (lower example_unicode_lower (select_first_option
      (remove_parentheses (u ''1 cup Flour (all-purpose) or rice flour'')))) = u ''1 cup flour''"
    by code_simp
  have b: "strip (lower example_unicode_lower (select_first_option
      (no_parenthesis (u ''1 cup Flour (all-purpose) or rice flour'')))) = u ''1 cup flour''"
    by code_simp
  have h1: "cp CHR ''('' \<notin> set (u ''1 cup flour'') \<and> u ''all-purpose'' \<noteq> [] \<and>
      cp CHR '')'' \<notin> set (u ''all-purpose'')"
    by simp
  have h2: "cp CHR ''('' \<notin> set (u ''flour'') \<and>
      (u ''flour'' = [] \<or> last (u ''flour'') \<noteq> cp CHR '' '') \<and>
      u ''all-purpose'' \<noteq> [] \<and> cp CHR '')'' \<notin> set (u ''all-purpose'')"
    by simp
  have h3: "cp CHR ''('' \<notin> set (u ''1 cup flour '') \<and> cp CHR '')'' \<notin> set (u ''all-purpose'')"
    by simp
  have h4: "cp CHR ''('' \<notin> set (u ''salt '')"
    by simp
  have h5: "\<not> has_or (u ''lemon'' @ u '' or'')"
    by simp
  have h6: "\<not> has_or (u ''flour'')"
    by simp
  have 1: "clean_ingredient example_unicode_lower (u ''1 cup Flour (all-purpose) or rice flour'')
      = u ''1 cup flour''"
    using T [THEN conjunct1] a by (rule trans)
  have 2: "formatted example_unicode_lower (u ''1 cup Flour (all-purpose) or rice flour'')
      = u ''1 cup flour''"
    using T [THEN conjunct2, THEN conjunct1] b by (rule trans)
  have 3: "remove_parentheses (u ''1 cup flour (all-purpose)'') = u ''1 cup flour''"
    using T [THEN conjunct2, THEN conjunct2, THEN conjunct2, THEN conjunct2, THEN conjunct1,
        THEN mp, OF h1]
    by simp
  have 4: "remove_parentheses (u ''flour(all-purpose)'') = u ''flour''"
    using U [THEN conjunct2, THEN conjunct2, THEN conjunct2, THEN conjunct2, THEN conjunct2,
        THEN conjunct1, THEN mp, OF h2]
    by simp
  have 5: "no_parenthesis (u ''1 cup flour (all-purpose)'') = u ''1 cup flour ''"
    using V [THEN conjunct2, THEN conjunct2, THEN conjunct2, THEN conjunct1, THEN mp, OF h3]
    by simp
  have 6: "remove_parentheses (u ''salt ()'') = u ''salt ()''"
    using W [THEN conjunct2, THEN conjunct2, THEN conjunct2, THEN conjunct2, THEN conjunct2,
        THEN conjunct2, THEN conjunct1, THEN mp, OF h4]
    by simp
  have 7: "select_first_option (u ''lemon or calamansi or lime'') = u ''lemon''"
    using T [THEN conjunct2, THEN conjunct2, THEN conjunct2, THEN conjunct2, THEN conjunct2,
        THEN conjunct2, THEN conjunct2, THEN conjunct2, THEN conjunct1, THEN mp, OF h5]
    by simp
  have 8: "select_first_option (u ''flour'') = u ''flour''"
    using T [THEN conjunct2, THEN conjunct2, THEN conjunct2, THEN conjunct2, THEN conjunct2,
        THEN conjunct2, THEN conjunct2, THEN conjunct1, THEN mp, OF h6]
    by simp
  have e: "strip (lower example_unicode_lower (select_first_option
      (remove_parentheses (u ''(optional)'')))) = []"
    by code_simp
  have 9: "clean_ingredient example_unicode_lower (u ''(optional)'') = []"
    using text_cleaner_steps [THEN conjunct1, of example_unicode_lower "u ''(optional)''"] e
    by (rule trans)
  have h7: "cp CHR ''('' \<notin> set (u ''2 eggs'')"
    by simp
  note X = text_cleaner_steps [of example_unicode_lower "[]" "u ''2 eggs''" "[]" "[]" "[]" "[]"
      "[]" "u ''  Egg yolk ''"]
  note 10 = X [THEN conjunct2, THEN conjunct2, THEN conjunct1, THEN mp, OF h7, THEN conjunct1]
  note 11 = X [THEN conjunct2, THEN conjunct2, THEN conjunct1, THEN mp, OF h7, THEN conjunct2]
  have h8: "strip (u ''  Egg yolk '') \<noteq> []"
    by code_simp
  have 12: "\<not> is_space (hd (strip (u ''  Egg yolk '')))"
    using X [THEN conjunct2, THEN conjunct2, THEN conjunct2, THEN conjunct2, THEN conjunct2,
        THEN conjunct2, THEN conjunct2, THEN conjunct2, THEN conjunct2, THEN conjunct2,
        THEN conjunct1] h8
    by blast
  have f: "strip (lower example_unicode_lower (select_first_option
      (remove_parentheses (u ''1 tsp Salt'' @ [0xA0])))) = u ''1 tsp salt''"
    by code_simp
  have 13: "clean_ingredient example_unicode_lower (u ''1 tsp Salt'' @ [0xA0]) = u ''1 tsp salt''"
    using text_cleaner_steps [THEN conjunct1, of example_unicode_lower "u ''1 tsp Salt'' @ [0xA0]"]
      f
    by (rule trans)
  have g: "strip (lower example_unicode_lower (select_first_option
      (no_parenthesis (u ''PI'' @ [0xD1] @ u ''A Colada'')))) = u ''pi'' @ [0xF1] @ u ''a colada''"
    by code_simp
  have 14: "formatted example_unicode_lower (u ''PI'' @ [0xD1] @ u ''A Colada'')
      = u ''pi'' @ [0xF1] @ u ''a colada''"
    using text_cleaner_steps [THEN conjunct2, THEN conjunct1,
        of example_unicode_lower "u ''PI'' @ [0xD1] @ u ''A Colada''"] g
    by (rule trans)
  have h9: "list_all (\<lambda>c. c < 256) (u ''PI'' @ [0xD1] @ u ''A'')"
    by simp
  have k: "map lower_char (u ''PI'' @ [0xD1] @ u ''A'') = u ''pi'' @ [0xF1] @ u ''a''"
    by code_simp
  note Y = text_cleaner_steps [of example_unicode_lower "[]" "[]" "[]" "[]" "[]" "[]" "[]"
      "u ''PI'' @ [0xD1] @ u ''A''"]
  have 15: "lower example_unicode_lower (u ''PI'' @ [0xD1] @ u ''A'') = u ''pi'' @ [0xF1] @ u ''a''"
    using Y [THEN conjunct2, THEN conjunct2, THEN conjunct2, THEN conjunct2, THEN conjunct2,
        THEN conjunct2, THEN conjunct2, THEN conjunct2, THEN conjunct2, THEN conjunct2,
        THEN conjunct2, THEN mp, OF h9, THEN conjunct1] k
    by (rule trans)
  from 1 2 3 4 5 6 7 8 9 10 11 12 13 14 15 show ?thesis
    by (intro conjI)
qed

end
